theory Spec2Isabelle
  imports Complex_Main "HOL-Library.Word"
begin

section \<open>Python values shared by the three scripts\<close>

text \<open>
  A Python \<open>str\<close> is modelled as a \<open>string\<close>; the character with code \<open>n\<close> stands for
  the code point \<open>U+n\<close>, so the model covers the code points below 256. Python's \<open>int\<close> is
  \<open>int\<close>, \<open>bytes\<close> is a list of 8-bit words. A raised exception is the \<open>Inl\<close> branch of a
  sum. \<open>KeyboardInterrupt\<close> and \<open>SystemExit\<close> are the two exceptions of the model that are
  not subclasses of \<open>Exception\<close>.
\<close>

type_synonym byte = "8 word"

datatype exn =
    KeyboardInterrupt
  | SystemExit int
  | TransactionNotFound
  | OverflowError
  | ValueError
  | AttributeError
  | TypeError
  | RuntimeError string
  | RpcError string

fun is_Exception :: "exn \<Rightarrow> bool" where
  "is_Exception KeyboardInterrupt = False"
| "is_Exception (SystemExit c) = False"
| "is_Exception e = True"

text \<open>
  The functions of the web3 library that the scripts call on values: \<open>Web3.keccak\<close>, the
  \<open>hex()\<close> method of the \<open>HexBytes\<close> it returns, and \<open>Web3.is_hex\<close>. They are not code
  of this repository and are parameters of the model.
\<close>

record web3_lib =
  keccak :: "byte list \<Rightarrow> byte list"
  hexbytes_hex :: "byte list \<Rightarrow> string"
  is_hex :: "string \<Rightarrow> bool"

subsection \<open>\<open>int.to_bytes(length, "big")\<close>\<close>

fun be_digits :: "nat \<Rightarrow> int \<Rightarrow> byte list" where
  "be_digits 0 n = []"
| "be_digits (Suc k) n = be_digits k (n div 256) @ [word_of_int (n mod 256)]"

definition to_bytes :: "int \<Rightarrow> nat \<Rightarrow> exn + byte list" where
  "to_bytes n len =
     (if n < 0 then Inl OverflowError
      else if 256 ^ len \<le> n then Inl OverflowError
      else Inr (be_digits len n))"

subsection \<open>\<open>bytes.fromhex\<close>\<close>

definition hex_digit_value :: "char \<Rightarrow> nat option" where
  "hex_digit_value c =
     (let n = (of_char c :: nat) in
      if 48 \<le> n \<and> n \<le> 57 then Some (n - 48)
      else if 97 \<le> n \<and> n \<le> 102 then Some (n - 87)
      else if 65 \<le> n \<and> n \<le> 70 then Some (n - 55)
      else None)"

definition Py_ISSPACE :: "char \<Rightarrow> bool" where
  "Py_ISSPACE c = (let n = (of_char c :: nat) in (9 \<le> n \<and> n \<le> 13) \<or> n = 32)"

fun fromhex :: "string \<Rightarrow> exn + byte list" where
  "fromhex [] = Inr []"
| "fromhex (c # cs) =
     (if Py_ISSPACE c then fromhex cs
      else case hex_digit_value c of
             None \<Rightarrow> Inl ValueError
           | Some hi \<Rightarrow>
               (case cs of
                  [] \<Rightarrow> Inl ValueError
                | d # ds \<Rightarrow>
                    (case hex_digit_value d of
                       None \<Rightarrow> Inl ValueError
                     | Some lo \<Rightarrow>
                         (case fromhex ds of
                            Inl e \<Rightarrow> Inl e
                          | Inr bs \<Rightarrow> Inr (word_of_nat (16 * hi + lo) # bs)))))"

section \<open>Commitment derivation (\<open>txbatch.py\<close>, \<open>txapp.py\<close>)\<close>

text \<open>
  \<open>build_commitment\<close> of \<open>txbatch.py\<close> and of \<open>txapp.py\<close> (the two bodies are the same).
  The five encodings are evaluated left to right, and the first one that raises ends the
  call.
\<close>

definition build_commitment ::
  "web3_lib \<Rightarrow> int \<Rightarrow> string \<Rightarrow> int \<Rightarrow> int \<Rightarrow> int \<Rightarrow> exn + string" where
  "build_commitment lib chain_id tx_hash_hex block_number status gas_used =
     (case to_bytes chain_id 8 of Inl e \<Rightarrow> Inl e | Inr chain_bytes \<Rightarrow>
      case fromhex (drop 2 tx_hash_hex) of Inl e \<Rightarrow> Inl e | Inr tx_bytes \<Rightarrow>
      case to_bytes block_number 8 of Inl e \<Rightarrow> Inl e | Inr block_bytes \<Rightarrow>
      case to_bytes status 1 of Inl e \<Rightarrow> Inl e | Inr status_bytes \<Rightarrow>
      case to_bytes gas_used 8 of Inl e \<Rightarrow> Inl e | Inr gas_bytes \<Rightarrow>
        Inr (''0x'' @ hexbytes_hex lib (keccak lib
               (chain_bytes @ tx_bytes @ block_bytes @ status_bytes @ gas_bytes))))"

subsection \<open>The layout as the specification words it\<close>

text \<open>
  \<open>derive(chainId: uint64, txHash: bytes32, blockNumber: uint64, status: uint8,
  gasUsed: uint64)\<close>: the big-endian bytes of a 64-bit word are its bits 56 to 63 first
  and its bits 0 to 7 last. A transaction hash is written canonically as \<open>0x\<close> followed by
  the lowercase hexadecimal digits of its bytes.
\<close>

definition spec_be64 :: "64 word \<Rightarrow> byte list" where
  "spec_be64 w = map (\<lambda>i. ucast (drop_bit (8 * i) w)) [7, 6, 5, 4, 3, 2, 1, 0]"

definition spec_preimage ::
  "64 word \<Rightarrow> byte list \<Rightarrow> 64 word \<Rightarrow> byte \<Rightarrow> 64 word \<Rightarrow> byte list" where
  "spec_preimage chainId txHash blockNumber status gasUsed =
     spec_be64 chainId @ txHash @ spec_be64 blockNumber @ [status] @ spec_be64 gasUsed"

definition lower_hex_digit :: "nat \<Rightarrow> char" where
  "lower_hex_digit d = (if d < 10 then char_of (48 + d) else char_of (87 + d))"

fun spec_hex_of_bytes :: "byte list \<Rightarrow> string" where
  "spec_hex_of_bytes [] = []"
| "spec_hex_of_bytes (b # bs) =
     lower_hex_digit (unat b div 16) # lower_hex_digit (unat b mod 16) # spec_hex_of_bytes bs"

definition spec_tx_hash_string :: "byte list \<Rightarrow> string" where
  "spec_tx_hash_string txHash = ''0x'' @ spec_hex_of_bytes txHash"


section \<open>Strings\<close>

text \<open>
  \<open>str.strip()\<close> removes the characters for which \<open>str.isspace\<close> holds from both ends;
  among the code points below 256 these are 9 to 13, 28 to 32, 133 and 160.
\<close>

definition Py_UNICODE_ISSPACE :: "char \<Rightarrow> bool" where
  "Py_UNICODE_ISSPACE c =
     (let n = (of_char c :: nat) in
      (9 \<le> n \<and> n \<le> 13) \<or> (28 \<le> n \<and> n \<le> 32) \<or> n = 133 \<or> n = 160)"

definition strip :: "string \<Rightarrow> string" where
  "strip s = rev (dropWhile Py_UNICODE_ISSPACE (rev (dropWhile Py_UNICODE_ISSPACE s)))"

definition startswith :: "string \<Rightarrow> string \<Rightarrow> bool" where
  "startswith s p = (take (length p) s = p)"

subsection \<open>\<open>int(s, 16)\<close>\<close>

text \<open>
  CPython first rewrites a string that is not pure ASCII: code points below 127 stay,
  a white-space code point becomes a blank, and any other one (no code point from 127 to
  255 is a decimal digit) becomes \<open>?\<close>, which no later step accepts. The ASCII text is then
  read as: white space, an optional sign, an optional \<open>0x\<close> or \<open>0X\<close> that may be followed
  by one underscore, digits with single underscores between them, white space.
\<close>

definition to_ascii :: "string \<Rightarrow> string" where
  "to_ascii s =
     (if list_all (\<lambda>c. (of_char c :: nat) < 128) s then s
      else map (\<lambda>c. if (of_char c :: nat) < 127 then c
                     else if Py_UNICODE_ISSPACE c then CHR '' ''
                     else CHR ''?'') s)"

fun scan_digits :: "string \<Rightarrow> bool \<Rightarrow> nat \<Rightarrow> int \<Rightarrow> (int \<times> nat \<times> string) option" where
  "scan_digits [] prev_us digits acc = (if prev_us then None else Some (acc, digits, []))"
| "scan_digits (c # cs) prev_us digits acc =
     (if c = CHR ''_'' then (if prev_us then None else scan_digits cs True digits acc)
      else case hex_digit_value c of
             Some d \<Rightarrow> scan_digits cs False (Suc digits) (16 * acc + int d)
           | None \<Rightarrow> (if prev_us then None else Some (acc, digits, c # cs)))"

definition skip_sign :: "string \<Rightarrow> int \<times> string" where
  "skip_sign s =
     (case s of
        [] \<Rightarrow> (1, s)
      | c # cs \<Rightarrow> if c = CHR ''+'' then (1, cs) else if c = CHR ''-'' then (- 1, cs) else (1, s))"

definition skip_prefix16 :: "string \<Rightarrow> string" where
  "skip_prefix16 s =
     (case s of
        a # b # cs \<Rightarrow>
          if a = CHR ''0'' \<and> (b = CHR ''x'' \<or> b = CHR ''X'')
          then (case cs of c # cs' \<Rightarrow> if c = CHR ''_'' then cs' else cs | [] \<Rightarrow> cs)
          else s
      | _ \<Rightarrow> s)"

definition py_int16 :: "string \<Rightarrow> exn + int" where
  "py_int16 u =
     (case skip_sign (dropWhile Py_ISSPACE (to_ascii u)) of
        (sign, s1) \<Rightarrow>
          let s2 = skip_prefix16 s1 in
          if startswith s2 ''_'' then Inl ValueError
          else case scan_digits s2 False 0 0 of
                 None \<Rightarrow> Inl ValueError
               | Some (v, digits, rest) \<Rightarrow>
                   if digits = 0 then Inl ValueError
                   else if dropWhile Py_ISSPACE rest \<noteq> [] then Inl ValueError
                   else Inr (sign * v))"

section \<open>Hash validation\<close>

text \<open>\<open>validate_tx_hash\<close> of \<open>tx_batch_auditor.py\<close>.\<close>

definition validate_tx_hash :: "string \<Rightarrow> bool" where
  "validate_tx_hash h =
     (if \<not> startswith h ''0x'' \<or> length h \<noteq> 66 then False
      else case py_int16 (drop 2 h) of Inl e \<Rightarrow> False | Inr v \<Rightarrow> True)"

text \<open>\<open>parse_tx_hash\<close> of \<open>txbatch.py\<close>; \<open>None\<close> is the invalid hash.\<close>

definition parse_tx_hash :: "web3_lib \<Rightarrow> string \<Rightarrow> string option" where
  "parse_tx_hash lib h0 =
     (let h1 = strip h0 in
      if h1 = [] then None
      else let h = (if \<not> startswith h1 ''0x'' then ''0x'' @ h1 else h1) in
           if length h \<noteq> 66 \<or> \<not> is_hex lib h then None else Some h)"

text \<open>
  The shape the specification gives a transaction hash: \<open>0x\<close> and 64 hexadecimal
  characters.
\<close>

definition spec_hash_shape :: "string \<Rightarrow> bool" where
  "spec_hash_shape h =
     (length h = 66 \<and> take 2 h = ''0x'' \<and> list_all (\<lambda>c. hex_digit_value c \<noteq> None) (drop 2 h))"


section \<open>Providers and the world\<close>

text \<open>
  A provider is a \<open>Web3\<close> object: its calls read and change the state \<open>'s\<close> of the
  network, and return a value or raise. \<open>get_transaction_receipt\<close> and \<open>get_transaction\<close>
  may return \<open>None\<close>. The world of a run is the state of the network and the trace of
  what the script did so far, oldest first: the calls made through the retry wrapper,
  the sleeps and the lines printed.
\<close>

record receipt =
  rcpt_blockNumber :: int
  rcpt_status :: int
  rcpt_gasUsed :: int
  rcpt_effectiveGasPrice :: "int option"

record transaction =
  tx_from :: string
  tx_to :: "string option"
  tx_gasPrice :: "int option"

record 's web3 =
  is_connected :: "'s \<Rightarrow> bool \<times> 's"
  eth_chain_id :: "'s \<Rightarrow> (exn + int) \<times> 's"
  eth_get_transaction_receipt :: "string \<Rightarrow> 's \<Rightarrow> (exn + receipt option) \<times> 's"
  eth_get_transaction :: "string \<Rightarrow> 's \<Rightarrow> (exn + transaction option) \<times> 's"

record receipt_bundle =
  b_chain_id :: int
  b_tx_hash :: string
  b_from :: string
  b_to :: "string option"
  b_block_number :: int
  b_status :: int
  b_gas_used :: int
  b_total_fee_wei :: "int option"
  b_commitment :: string

datatype cross_note =
    NoCross
  | CrossOk
  | CrossMismatch
  | CrossNotFound
  | CrossError exn

record counters =
  success_count :: nat
  fail_count :: nat
  pending_count :: nat
  not_found_count :: nat
  mismatch_count :: nat

record commitment_info =
  ci_chainId :: int
  ci_blockNumber :: int
  ci_status :: int
  ci_gasUsed :: int
  ci_commitment :: string

text \<open>
  The record \<open>audit_tx\<close> returns. The two error fields hold the exception whose message
  the script stores; the elapsed time \<open>timingSec\<close> is a wall-clock reading and is not
  part of the model.
\<close>

record audit_result =
  txHash :: string
  primary :: "commitment_info option"
  secondary :: "commitment_info option"
  match :: "bool option"
  errorPrimary :: "exn option"
  errorSecondary :: "exn option"

text \<open>
  The events of a trace. \<open>Invoke\<close> marks a call of the function wrapped by
  \<open>safe_rpc_call\<close> and \<open>Sleep d\<close> a call of \<open>time.sleep(d)\<close>. The others are printed lines,
  kept with the values they are formatted from: the two messages of the retry wrapper
  (attempt number, \<open>retries\<close>, exception), the message of \<open>fetch_bundle\<close>, the warnings
  and error messages of the two \<open>main\<close> functions, the line that shows a chain id
  (\<open>True\<close> for the primary provider), the three kinds of row of the batch table, its
  summary (hashes processed, invalid hashes, counters) and the output of the auditor
  (\<open>True\<close> for JSON). Lines that only announce a step are not modelled.
\<close>

datatype event =
    Invoke
  | Sleep real
  | WarnAttempt int int exn
  | FailAttempts int exn
  | FetchFailed exn
  | PlaceholderWarning
  | NoHashes
  | InvalidHash string
  | NoValidHashes
  | ConnectionFailed string
  | ChainIdLine bool "int option"
  | NotFoundRow string
  | ErrorRow string exn
  | Row string receipt_bundle cross_note
  | Summary nat nat counters
  | MismatchWarning nat
  | InvalidHashes "string list"
  | ChainIdMismatch int int
  | Report bool "audit_result list"

record 's world =
  net :: 's
  trace :: "event list"

definition emit :: "event \<Rightarrow> 's world \<Rightarrow> 's world" where
  "emit e w = w\<lparr>trace := trace w @ [e]\<rparr>"

definition rpc :: "('s \<Rightarrow> 'a \<times> 's) \<Rightarrow> 's world \<Rightarrow> 'a \<times> 's world" where
  "rpc f w = (case f (net w) of (r, n) \<Rightarrow> (r, w\<lparr>net := n\<rparr>))"

section \<open>Retry executor (\<open>txbatch.py\<close>)\<close>

text \<open>
  \<open>safe_rpc_call\<close>: the loop over \<open>range(1, retries + 1)\<close>. \<open>Invoke\<close> is put on the
  trace at each call of the wrapped function. A value ends the loop; so does an exception
  that is not an \<open>Exception\<close>, and an \<open>Exception\<close> at the attempt numbered \<open>retries\<close>.
  When the range is empty the Python function falls off its end and returns \<open>None\<close>:
  the result \<open>Inr None\<close>.
\<close>

fun safe_rpc_loop ::
  "('s \<Rightarrow> (exn + 'a) \<times> 's) \<Rightarrow> int \<Rightarrow> real \<Rightarrow> int list \<Rightarrow> 's world
     \<Rightarrow> (exn + 'a option) \<times> 's world" where
  "safe_rpc_loop func retries delay [] w = (Inr None, w)"
| "safe_rpc_loop func retries delay (attempt # rest) w =
     (case rpc func (emit Invoke w) of
        (Inr v, w1) \<Rightarrow> (Inr (Some v), w1)
      | (Inl e, w1) \<Rightarrow>
          if \<not> is_Exception e then (Inl e, w1)
          else if attempt = retries then (Inl e, emit (FailAttempts retries e) w1)
          else safe_rpc_loop func retries delay rest
                 (emit (Sleep delay) (emit (WarnAttempt attempt retries e) w1)))"

definition safe_rpc_call ::
  "('s \<Rightarrow> (exn + 'a) \<times> 's) \<Rightarrow> int \<Rightarrow> real \<Rightarrow> 's world \<Rightarrow> (exn + 'a option) \<times> 's world" where
  "safe_rpc_call func retries delay w = safe_rpc_loop func retries delay [1..retries] w"

text \<open>
  For stating what the wrapper did: the calls and sleeps on a trace, and the results of
  the first \<open>k\<close> successive calls of a function from a state of the network.
\<close>

fun is_call_or_sleep :: "event \<Rightarrow> bool" where
  "is_call_or_sleep Invoke = True"
| "is_call_or_sleep (Sleep d) = True"
| "is_call_or_sleep e = False"

fun call_results :: "('s \<Rightarrow> (exn + 'a) \<times> 's) \<Rightarrow> nat \<Rightarrow> 's \<Rightarrow> (exn + 'a) list" where
  "call_results func 0 n = []"
| "call_results func (Suc k) n = (case func n of (r, n') \<Rightarrow> r # call_results func k n')"

section \<open>Fetching a bundle (\<open>txbatch.py\<close>)\<close>

text \<open>
  The \<open>try\<close> block of \<open>fetch_bundle\<close> with its two handlers: \<open>TransactionNotFound\<close> is
  re-raised as it is, any other \<open>Exception\<close> is printed and re-raised. What the retry
  wrapper hands back is a Python value, so a missing result and a returned \<open>None\<close> are
  the same \<open>None\<close>.
\<close>

definition py_none :: "'a option option \<Rightarrow> 'a option" where
  "py_none r = (case r of None \<Rightarrow> None | Some v \<Rightarrow> v)"

definition fetch_handler :: "exn \<Rightarrow> 's world \<Rightarrow> 's world" where
  "fetch_handler e w =
     (if e = TransactionNotFound then w
      else if is_Exception e then emit (FetchFailed e) w
      else w)"

definition fetch_rcpt_tx ::
  "'s web3 \<Rightarrow> string \<Rightarrow> 's world
     \<Rightarrow> (exn + receipt option \<times> transaction option) \<times> 's world" where
  "fetch_rcpt_tx w3 txh w =
     (case safe_rpc_call (eth_get_transaction_receipt w3 txh) 3 1 w of
        (Inl e, w1) \<Rightarrow> (Inl e, fetch_handler e w1)
      | (Inr rcpt, w1) \<Rightarrow>
          (case safe_rpc_call (eth_get_transaction w3 txh) 3 1 w1 of
             (Inl e, w2) \<Rightarrow> (Inl e, fetch_handler e w2)
           | (Inr tx, w2) \<Rightarrow> (Inr (py_none rcpt, py_none tx), w2)))"

text \<open>
  The rest of \<open>fetch_bundle\<close>. Reading \<open>gasPrice\<close> from a transaction that is \<open>None\<close>
  raises \<open>AttributeError\<close>, subscripting it raises \<open>TypeError\<close>. The fee is kept in wei;
  its conversion to a floating-point amount of ether and the network name are for display
  only and are left out of the bundle.
\<close>

definition make_bundle ::
  "web3_lib \<Rightarrow> int option \<Rightarrow> string \<Rightarrow> receipt \<Rightarrow> transaction option \<Rightarrow> exn + receipt_bundle" where
  "make_bundle lib cid txh rcpt tx =
     (case cid of
        None \<Rightarrow> Inl AttributeError
      | Some chain_id \<Rightarrow>
          let status = rcpt_status rcpt;
              gas_used = rcpt_gasUsed rcpt;
              block_number = rcpt_blockNumber rcpt
          in case build_commitment lib chain_id txh block_number status gas_used of
               Inl e \<Rightarrow> Inl e
             | Inr commitment \<Rightarrow>
                 (case (case rcpt_effectiveGasPrice rcpt of
                          Some p \<Rightarrow> Inr (Some p)
                        | None \<Rightarrow>
                            (case tx of
                               None \<Rightarrow> Inl AttributeError
                             | Some t \<Rightarrow> Inr (tx_gasPrice t))) of
                    Inl e \<Rightarrow> Inl e
                  | Inr effective_gas_price \<Rightarrow>
                      (case tx of
                         None \<Rightarrow> Inl TypeError
                       | Some t \<Rightarrow>
                           Inr \<lparr>b_chain_id = chain_id,
                                b_tx_hash = txh,
                                b_from = tx_from t,
                                b_to = tx_to t,
                                b_block_number = block_number,
                                b_status = status,
                                b_gas_used = gas_used,
                                b_total_fee_wei = map_option (\<lambda>p. gas_used * p) effective_gas_price,
                                b_commitment = commitment\<rparr>)))"

definition fetch_bundle ::
  "web3_lib \<Rightarrow> 's web3 \<Rightarrow> string \<Rightarrow> 's world \<Rightarrow> (exn + receipt_bundle) \<times> 's world" where
  "fetch_bundle lib w3 txh w =
     (case fetch_rcpt_tx w3 txh w of
        (Inl e, w1) \<Rightarrow> (Inl e, w1)
      | (Inr (rcpt, tx), w1) \<Rightarrow>
          (case rcpt of
             None \<Rightarrow> (Inl (RuntimeError ''receipt is None (tx pending or unknown)''), w1)
           | Some r \<Rightarrow>
               (case safe_rpc_call (eth_chain_id w3) 3 1 w1 of
                  (Inl e, w2) \<Rightarrow> (Inl e, w2)
                | (Inr cid, w2) \<Rightarrow> (make_bundle lib cid txh r tx, w2))))"


section \<open>Batch run (\<open>txbatch.py\<close>)\<close>

text \<open>
  The arguments after parsing: the \<open>--tx\<close> values, and for \<open>--file\<close> either no file, a
  file that cannot be opened, or the lines read from it. The environment gives the two
  endpoint addresses and the provider found at each address.
\<close>

datatype file_arg = NoFile | Unreadable | Lines "string list"




fun unique_loop :: "string list \<Rightarrow> string set \<Rightarrow> string list \<Rightarrow> string list" where
  "unique_loop [] seen unique = unique"
| "unique_loop (h # hs) seen unique =
     (if h \<notin> seen then unique_loop hs (insert h seen) (unique @ [h])
      else unique_loop hs seen unique)"


fun parse_loop ::
  "web3_lib \<Rightarrow> string list \<Rightarrow> string list \<Rightarrow> nat \<Rightarrow> 's world
     \<Rightarrow> (string list \<times> nat) \<times> 's world" where
  "parse_loop lib [] tx_hashes invalid_count w = ((tx_hashes, invalid_count), w)"
| "parse_loop lib (raw # rest) tx_hashes invalid_count w =
     (case parse_tx_hash lib raw of
        None \<Rightarrow> parse_loop lib rest tx_hashes (invalid_count + 1) (emit (InvalidHash raw) w)
      | Some h \<Rightarrow> parse_loop lib rest (tx_hashes @ [h]) invalid_count w)"



text \<open>
  The cross-check of one transaction against the secondary provider: the note printed
  in the row and the value of \<open>match\<close>. An exception that is not an \<open>Exception\<close> leaves
  the loop.
\<close>

definition cross_check ::
  "web3_lib \<Rightarrow> 's web3 option \<Rightarrow> string \<Rightarrow> receipt_bundle \<Rightarrow> 's world
     \<Rightarrow> (exn + cross_note \<times> bool) \<times> 's world" where
  "cross_check lib w3b txh bundle_primary w =
     (case w3b of
        None \<Rightarrow> (Inr (NoCross, True), w)
      | Some wb \<Rightarrow>
          (case fetch_bundle lib wb txh w of
             (Inr bundle_secondary, w1) \<Rightarrow>
               let same_chain = (b_chain_id bundle_primary = b_chain_id bundle_secondary);
                   same_block = (b_block_number bundle_primary = b_block_number bundle_secondary);
                   same_status = (b_status bundle_primary = b_status bundle_secondary);
                   same_gas = (b_gas_used bundle_primary = b_gas_used bundle_secondary);
                   same_commit = (b_commitment bundle_primary = b_commitment bundle_secondary)
               in if same_chain \<and> same_block \<and> same_status \<and> same_gas \<and> same_commit
                  then (Inr (CrossOk, True), w1)
                  else (Inr (CrossMismatch, False), w1)
           | (Inl e, w1) \<Rightarrow>
               if e = TransactionNotFound then (Inr (CrossNotFound, False), w1)
               else if is_Exception e then (Inr (CrossError e, False), w1)
               else (Inl e, w1)))"

definition count_row :: "receipt_bundle \<Rightarrow> bool \<Rightarrow> bool \<Rightarrow> counters \<Rightarrow> counters" where
  "count_row bundle_primary match_ok has_secondary c =
     (let c1 = (if b_status bundle_primary = 1
                then c\<lparr>success_count := success_count c + 1\<rparr>
                else c\<lparr>fail_count := fail_count c + 1\<rparr>)
      in if \<not> match_ok \<and> has_secondary
         then c1\<lparr>mismatch_count := mismatch_count c1 + 1\<rparr>
         else c1)"

fun audit_loop ::
  "web3_lib \<Rightarrow> 's web3 \<Rightarrow> 's web3 option \<Rightarrow> string list \<Rightarrow> counters \<Rightarrow> 's world
     \<Rightarrow> (exn + counters) \<times> 's world" where
  "audit_loop lib w3 w3b [] c w = (Inr c, w)"
| "audit_loop lib w3 w3b (txh # rest) c w =
     (case fetch_bundle lib w3 txh w of
        (Inl e, w1) \<Rightarrow>
          if e = TransactionNotFound
          then audit_loop lib w3 w3b rest (c\<lparr>not_found_count := not_found_count c + 1\<rparr>)
                 (emit (NotFoundRow txh) w1)
          else if is_Exception e
          then audit_loop lib w3 w3b rest (c\<lparr>fail_count := fail_count c + 1\<rparr>)
                 (emit (ErrorRow txh e) w1)
          else (Inl e, w1)
      | (Inr bundle_primary, w1) \<Rightarrow>
          (case cross_check lib w3b txh bundle_primary w1 of
             (Inl e, w2) \<Rightarrow> (Inl e, w2)
           | (Inr (note, match_ok), w2) \<Rightarrow>
               audit_loop lib w3 w3b rest (count_row bundle_primary match_ok (w3b \<noteq> None) c)
                 (emit (Row txh bundle_primary note) w2)))"

text \<open>
  The rows of the table the loop prints, one per transaction, and what a row shows: a
  primary receipt with status 1, a failure (an error on the primary provider or a
  primary receipt whose status is not 1), a transaction the primary provider does not
  find, and a cross-check that did not agree.
\<close>

fun is_verdict_row :: "event \<Rightarrow> bool" where
  "is_verdict_row (NotFoundRow h) = True"
| "is_verdict_row (ErrorRow h e) = True"
| "is_verdict_row (Row h b n) = True"
| "is_verdict_row e = False"

fun row_hash :: "event \<Rightarrow> string" where
  "row_hash (NotFoundRow h) = h"
| "row_hash (ErrorRow h e) = h"
| "row_hash (Row h b n) = h"
| "row_hash e = []"

fun is_success_row :: "event \<Rightarrow> bool" where
  "is_success_row (Row h b n) = (b_status b = 1)"
| "is_success_row e = False"

fun is_failed_row :: "event \<Rightarrow> bool" where
  "is_failed_row (ErrorRow h e) = True"
| "is_failed_row (Row h b n) = (b_status b \<noteq> 1)"
| "is_failed_row e = False"

fun is_not_found_row :: "event \<Rightarrow> bool" where
  "is_not_found_row (NotFoundRow h) = True"
| "is_not_found_row e = False"

fun is_mismatch_row :: "event \<Rightarrow> bool" where
  "is_mismatch_row (Row h b n) = (n \<noteq> NoCross \<and> n \<noteq> CrossOk)"
| "is_mismatch_row e = False"

definition rows :: "event list \<Rightarrow> event list" where
  "rows t = filter is_verdict_row t"

definition zero_counters :: counters where
  "zero_counters =
     \<lparr>success_count = 0, fail_count = 0, pending_count = 0, not_found_count = 0,
      mismatch_count = 0\<rparr>"




section \<open>The auditor (\<open>tx_batch_auditor.py\<close>)\<close>

text \<open>
  \<open>build_commitment\<close> of \<open>tx_batch_auditor.py\<close> fetches the receipt and the chain id
  itself, without the retry wrapper, and then encodes. Reading a field of a receipt that
  is \<open>None\<close> raises \<open>AttributeError\<close>. The commitment is the \<open>hex()\<close> of the digest as the
  library prints it.
\<close>

definition encode_commitment ::
  "web3_lib \<Rightarrow> int \<Rightarrow> string \<Rightarrow> receipt \<Rightarrow> exn + commitment_info" where
  "encode_commitment lib chain_id tx_hash rcpt =
     (let block_number = rcpt_blockNumber rcpt;
          status = rcpt_status rcpt;
          gas_used = rcpt_gasUsed rcpt
      in case to_bytes chain_id 8 of Inl e \<Rightarrow> Inl e | Inr chain_bytes \<Rightarrow>
         case fromhex (drop 2 tx_hash) of Inl e \<Rightarrow> Inl e | Inr tx_bytes \<Rightarrow>
         case to_bytes block_number 8 of Inl e \<Rightarrow> Inl e | Inr block_bytes \<Rightarrow>
         case to_bytes status 1 of Inl e \<Rightarrow> Inl e | Inr status_bytes \<Rightarrow>
         case to_bytes gas_used 8 of Inl e \<Rightarrow> Inl e | Inr gas_bytes \<Rightarrow>
           let preimage = chain_bytes @ tx_bytes @ block_bytes @ status_bytes @ gas_bytes;
               commit = keccak lib preimage
           in Inr \<lparr>ci_chainId = chain_id,
                   ci_blockNumber = block_number,
                   ci_status = status,
                   ci_gasUsed = gas_used,
                   ci_commitment = hexbytes_hex lib commit\<rparr>)"

definition auditor_build_commitment ::
  "web3_lib \<Rightarrow> 's web3 \<Rightarrow> string \<Rightarrow> 's world \<Rightarrow> (exn + commitment_info) \<times> 's world" where
  "auditor_build_commitment lib w3 tx_hash w =
     (case rpc (eth_get_transaction_receipt w3 tx_hash) w of
        (Inl e, w1) \<Rightarrow> (Inl e, w1)
      | (Inr rcpt, w1) \<Rightarrow>
          (case rpc (eth_chain_id w3) w1 of
             (Inl e, w2) \<Rightarrow> (Inl e, w2)
           | (Inr chain_id, w2) \<Rightarrow>
               (case rcpt of
                  None \<Rightarrow> (Inl AttributeError, w2)
                | Some r \<Rightarrow> (encode_commitment lib chain_id tx_hash r, w2))))"

text \<open>
  \<open>audit_tx\<close>: each \<open>try\<close> stores the value, or stores the \<open>Exception\<close> caught; any other
  exception leaves the function. The two stored values are dictionaries with five keys,
  so each is true in the final test exactly when it is not \<open>None\<close>.
\<close>

definition audit_primary ::
  "web3_lib \<Rightarrow> 's web3 \<Rightarrow> audit_result \<Rightarrow> 's world \<Rightarrow> (exn + audit_result) \<times> 's world" where
  "audit_primary lib w3_primary result w =
     (case auditor_build_commitment lib w3_primary (txHash result) w of
        (Inr p, w1) \<Rightarrow> (Inr (result\<lparr>primary := Some p\<rparr>), w1)
      | (Inl e, w1) \<Rightarrow>
          if is_Exception e then (Inr (result\<lparr>errorPrimary := Some e\<rparr>), w1)
          else (Inl e, w1))"

definition audit_secondary ::
  "web3_lib \<Rightarrow> 's web3 option \<Rightarrow> audit_result \<Rightarrow> 's world
     \<Rightarrow> (exn + audit_result) \<times> 's world" where
  "audit_secondary lib w3_secondary result w =
     (case w3_secondary of
        None \<Rightarrow> (Inr result, w)
      | Some w3s \<Rightarrow>
          (case auditor_build_commitment lib w3s (txHash result) w of
             (Inr s, w1) \<Rightarrow> (Inr (result\<lparr>secondary := Some s\<rparr>), w1)
           | (Inl e, w1) \<Rightarrow>
               if is_Exception e then (Inr (result\<lparr>errorSecondary := Some e\<rparr>), w1)
               else (Inl e, w1)))"

definition compare_commitments :: "audit_result \<Rightarrow> audit_result" where
  "compare_commitments result =
     (case (primary result, secondary result) of
        (Some p, Some s) \<Rightarrow> result\<lparr>match := Some (ci_commitment p = ci_commitment s)\<rparr>
      | _ \<Rightarrow> result)"

definition audit_tx ::
  "web3_lib \<Rightarrow> string \<Rightarrow> 's web3 \<Rightarrow> 's web3 option \<Rightarrow> 's world
     \<Rightarrow> (exn + audit_result) \<times> 's world" where
  "audit_tx lib tx_hash w3_primary w3_secondary w =
     (let result = \<lparr>txHash = tx_hash, primary = None, secondary = None, match = None,
                     errorPrimary = None, errorSecondary = None\<rparr>
      in case audit_primary lib w3_primary result w of
           (Inl e, w1) \<Rightarrow> (Inl e, w1)
         | (Inr result1, w1) \<Rightarrow>
             (case audit_secondary lib w3_secondary result1 w1 of
                (Inl e, w2) \<Rightarrow> (Inl e, w2)
              | (Inr result2, w2) \<Rightarrow> (Inr (compare_commitments result2), w2)))"

subsection \<open>\<open>main\<close> of the auditor\<close>

record auditor_args =
  a_rpc1 :: string
  a_rpc2 :: "string option"
  a_file :: file_arg
  a_txs :: "string list"
  a_max :: int
  a_json :: bool

definition gather_hashes :: "auditor_args \<Rightarrow> exn + string list" where
  "gather_hashes args =
     (case a_file args of
        NoFile \<Rightarrow> Inr (a_txs args)
      | Unreadable \<Rightarrow> Inl (SystemExit 1)
      | Lines ls \<Rightarrow> Inr (filter (\<lambda>l. l \<noteq> []) (map strip ls)))"

text \<open>\<open>list(dict.fromkeys(hashes))\<close>: the keys in the order of their first insertion.\<close>

fun fromkeys :: "string list \<Rightarrow> string list \<Rightarrow> string list" where
  "fromkeys [] keys = keys"
| "fromkeys (h # hs) keys = fromkeys hs (if h \<in> set keys then keys else keys @ [h])"

definition clean_hashes :: "string list \<Rightarrow> string list" where
  "clean_hashes hashes = fromkeys (map strip (filter (\<lambda>h. strip h \<noteq> []) hashes)) []"

definition cap_hashes :: "int \<Rightarrow> string list \<Rightarrow> string list" where
  "cap_hashes m hashes = (if m > 0 \<and> int (length hashes) > m then take (nat m) hashes else hashes)"

fun contains :: "string \<Rightarrow> string \<Rightarrow> bool" where
  "contains [] p = (p = [])"
| "contains (c # cs) p = (startswith (c # cs) p \<or> contains cs p)"

definition connect ::
  "(string \<Rightarrow> 's web3) \<Rightarrow> string \<Rightarrow> 's world \<Rightarrow> (exn + 's web3) \<times> 's world" where
  "connect provider rpc_url w =
     (let w3 = provider rpc_url in
      case rpc (is_connected w3) w of
        (True, w1) \<Rightarrow> (Inr w3, w1)
      | (False, w1) \<Rightarrow> (Inl (SystemExit 1), emit (ConnectionFailed rpc_url) w1))"

definition connect_optional ::
  "(string \<Rightarrow> 's web3) \<Rightarrow> string option \<Rightarrow> 's world
     \<Rightarrow> (exn + 's web3 option) \<times> 's world" where
  "connect_optional provider rpc2 w =
     (case rpc2 of
        None \<Rightarrow> (Inr None, w)
      | Some url \<Rightarrow>
          if url = [] then (Inr None, w)
          else case connect provider url w of
                 (Inl e, w1) \<Rightarrow> (Inl e, w1)
               | (Inr w3, w1) \<Rightarrow> (Inr (Some w3), w1))"

text \<open>
  The chain id check. \<open>eth.chain_id\<close> is a call to the provider each time it is read:
  twice for the comparison, and twice more for the message when the ids differ. In the
  source the two \<open>if\<close> lines of the check are indented unevenly; they are read as the
  test for a secondary provider around the comparison.
\<close>

definition read_chain_ids ::
  "'s web3 \<Rightarrow> 's web3 \<Rightarrow> 's world \<Rightarrow> (exn + int \<times> int) \<times> 's world" where
  "read_chain_ids w3_primary w3_secondary w =
     (case rpc (eth_chain_id w3_primary) w of
        (Inl e, w1) \<Rightarrow> (Inl e, w1)
      | (Inr a, w1) \<Rightarrow>
          (case rpc (eth_chain_id w3_secondary) w1 of
             (Inl e, w2) \<Rightarrow> (Inl e, w2)
           | (Inr b, w2) \<Rightarrow> (Inr (a, b), w2)))"

definition check_chain_ids ::
  "'s web3 \<Rightarrow> 's web3 option \<Rightarrow> 's world \<Rightarrow> (exn + unit) \<times> 's world" where
  "check_chain_ids w3_primary w3_secondary w =
     (case w3_secondary of
        None \<Rightarrow> (Inr (), w)
      | Some w3s \<Rightarrow>
          (case read_chain_ids w3_primary w3s w of
             (Inl e, w1) \<Rightarrow> (Inl e, w1)
           | (Inr (a, b), w1) \<Rightarrow>
               if a \<noteq> b
               then (case read_chain_ids w3_primary w3s w1 of
                       (Inl e, w2) \<Rightarrow> (Inl e, w2)
                     | (Inr (a', b'), w2) \<Rightarrow>
                         (Inl (SystemExit 1), emit (ChainIdMismatch a' b') w2))
               else (Inr (), w1)))"

fun audit_all ::
  "web3_lib \<Rightarrow> string list \<Rightarrow> 's web3 \<Rightarrow> 's web3 option \<Rightarrow> audit_result list \<Rightarrow> 's world
     \<Rightarrow> (exn + audit_result list) \<times> 's world" where
  "audit_all lib [] w3_primary w3_secondary results w = (Inr results, w)"
| "audit_all lib (h # hs) w3_primary w3_secondary results w =
     (case audit_tx lib h w3_primary w3_secondary w of
        (Inl e, w1) \<Rightarrow> (Inl e, w1)
      | (Inr res, w1) \<Rightarrow> audit_all lib hs w3_primary w3_secondary (results @ [res]) w1)"

text \<open>
  Both output modes read the chain id of the primary provider twice and then, when there
  is a secondary provider, its chain id twice, before the results are printed; the
  printed text is the event \<open>Report\<close>.
\<close>

definition report ::
  "bool \<Rightarrow> 's web3 \<Rightarrow> 's web3 option \<Rightarrow> audit_result list \<Rightarrow> 's world
     \<Rightarrow> (exn + audit_result list) \<times> 's world" where
  "report json w3_primary w3_secondary results w =
     (case rpc (eth_chain_id w3_primary) w of
        (Inl e, w1) \<Rightarrow> (Inl e, w1)
      | (Inr a, w1) \<Rightarrow>
          (case rpc (eth_chain_id w3_primary) w1 of
             (Inl e, w2) \<Rightarrow> (Inl e, w2)
           | (Inr a', w2) \<Rightarrow>
               (case w3_secondary of
                  None \<Rightarrow> (Inr results, emit (Report json results) w2)
                | Some w3s \<Rightarrow>
                    (case read_chain_ids w3s w3s w2 of
                       (Inl e, w3) \<Rightarrow> (Inl e, w3)
                     | (Inr bb, w3) \<Rightarrow> (Inr results, emit (Report json results) w3)))))"

text \<open>
  \<open>main\<close> of \<open>tx_batch_auditor.py\<close> from the parsed arguments on. The result is the list
  of records handed to the output, or the exception that leaves \<open>main\<close>.
\<close>

definition auditor_main ::
  "web3_lib \<Rightarrow> (string \<Rightarrow> 's web3) \<Rightarrow> auditor_args \<Rightarrow> 's world
     \<Rightarrow> (exn + audit_result list) \<times> 's world" where
  "auditor_main lib provider args w =
     (case gather_hashes args of
        Inl e \<Rightarrow> (Inl e, w)
      | Inr hashes0 \<Rightarrow>
          let hashes1 = clean_hashes hashes0 in
          if hashes1 = [] then (Inl (SystemExit 1), emit NoHashes w)
          else
            let bad = filter (\<lambda>h. \<not> validate_tx_hash h) hashes1 in
            if bad \<noteq> [] then (Inl (SystemExit 1), emit (InvalidHashes bad) w)
            else
              let hashes = cap_hashes (a_max args) hashes1;
                  w0 = (if contains (a_rpc1 args) ''your_api_key''
                        then emit PlaceholderWarning w else w)
              in case connect provider (a_rpc1 args) w0 of
                   (Inl e, w1) \<Rightarrow> (Inl e, w1)
                 | (Inr w3_primary, w1) \<Rightarrow>
                     (case connect_optional provider (a_rpc2 args) w1 of
                        (Inl e, w2) \<Rightarrow> (Inl e, w2)
                      | (Inr w3_secondary, w2) \<Rightarrow>
                          (case check_chain_ids w3_primary w3_secondary w2 of
                             (Inl e, w3) \<Rightarrow> (Inl e, w3)
                           | (Inr u, w3) \<Rightarrow>
                               (case audit_all lib hashes w3_primary w3_secondary [] w3 of
                                  (Inl e, w4) \<Rightarrow> (Inl e, w4)
                                | (Inr results, w4) \<Rightarrow>
                                    report (a_json args) w3_primary w3_secondary results w4))))"


section \<open>Concrete inputs\<close>

text \<open>
  An instance of the library parameters on which the model can be evaluated: the digest
  is the preimage itself, printed in lowercase hexadecimal, so that a result shows the
  bytes that reach the hash; \<open>is_hex\<close> accepts an optional \<open>0x\<close> or \<open>0X\<close> followed by
  hexadecimal digits.
\<close>

definition prefixed_hex :: "string \<Rightarrow> bool" where
  "prefixed_hex s =
     list_all (\<lambda>c. hex_digit_value c \<noteq> None)
       (if startswith s ''0x'' \<or> startswith s ''0X'' then drop 2 s else s)"

definition echo_lib :: web3_lib where
  "echo_lib = \<lparr>keccak = (\<lambda>bs. bs), hexbytes_hex = spec_hex_of_bytes, is_hex = prefixed_hex\<rparr>"

definition hash_a :: string where
  "hash_a = ''0xaaaaaaaaaaaaaaaaaaaaaaaaaaaaaaaaaaaaaaaaaaaaaaaaaaaaaaaaaaaaaaaa''"

definition hash_b :: string where
  "hash_b = ''0xbbbbbbbbbbbbbbbbbbbbbbbbbbbbbbbbbbbbbbbbbbbbbbbbbbbbbbbbbbbbbbbb''"

text \<open>
  Providers that answer from a table and count the calls made to them in the state of
  the network; \<open>start\<close> is the world before a run.
\<close>

definition sample_tx :: transaction where
  "sample_tx = \<lparr>tx_from = ''0xfrom'', tx_to = Some ''0xto'', tx_gasPrice = Some 5\<rparr>"

definition table_provider :: "int \<Rightarrow> (string \<Rightarrow> exn + receipt option) \<Rightarrow> nat web3" where
  "table_provider cid receipts =
     \<lparr>is_connected = (\<lambda>n. (True, n)),
      eth_chain_id = (\<lambda>n. (Inr cid, Suc n)),
      eth_get_transaction_receipt = (\<lambda>h n. (receipts h, Suc n)),
      eth_get_transaction = (\<lambda>h n. (Inr (Some sample_tx), Suc n))\<rparr>"

definition receipt_of :: "int \<Rightarrow> int \<Rightarrow> int option \<Rightarrow> receipt" where
  "receipt_of st gas price =
     \<lparr>rcpt_blockNumber = 100, rcpt_status = st, rcpt_gasUsed = gas,
      rcpt_effectiveGasPrice = price\<rparr>"

definition start :: "nat world" where
  "start = \<lparr>net = 0, trace = []\<rparr>"

text \<open>
  Two endpoints on different chains, with the same receipt for every transaction, and
  the arguments of a run on one hash.
\<close>

definition two_chains :: "string \<Rightarrow> nat web3" where
  "two_chains url =
     (if url = ''primary'' then table_provider 1 (\<lambda>h. Inr (Some (receipt_of 1 21000 None)))
      else table_provider 137 (\<lambda>h. Inr (Some (receipt_of 1 21000 None))))"



definition auditor_one_hash_args :: auditor_args where
  "auditor_one_hash_args =
     \<lparr>a_rpc1 = ''primary'', a_rpc2 = Some ''secondary'', a_file = NoFile, a_txs = [hash_a],
      a_max = 0, a_json = True\<rparr>"

text \<open>
  A provider that has a failed transaction (status 0) for \<open>hash_a\<close> and does not know
  any other hash, and two providers that disagree on the gas used.
\<close>

definition only_hash_a :: "string \<Rightarrow> exn + receipt option" where
  "only_hash_a h = (if h = hash_a then Inr (Some (receipt_of 0 21000 None))
                    else Inl TransactionNotFound)"



text \<open>
  Runs of the auditor on one endpoint: a list with a repeated hash, and a list with a
  malformed hash.
\<close>

definition one_provider :: "string \<Rightarrow> nat web3" where
  "one_provider url = table_provider 1 only_hash_a"

definition repeated_args :: auditor_args where
  "repeated_args =
     \<lparr>a_rpc1 = ''primary'', a_rpc2 = None, a_file = NoFile,
      a_txs = [hash_a, hash_b, hash_a], a_max = 0, a_json = True\<rparr>"

definition malformed_args :: auditor_args where
  "malformed_args =
     \<lparr>a_rpc1 = ''primary'', a_rpc2 = None, a_file = NoFile,
      a_txs = [hash_a, ''0xnotahash''], a_max = 0, a_json = True\<rparr>"

text \<open>The hash \<open>hash_a\<close> without its prefix, and with a sign in place of a digit.\<close>

definition bare_a :: string where
  "bare_a = ''aaaaaaaaaaaaaaaaaaaaaaaaaaaaaaaaaaaaaaaaaaaaaaaaaaaaaaaaaaaaaaaa''"

definition signed_a :: string where
  "signed_a = ''0x+aaaaaaaaaaaaaaaaaaaaaaaaaaaaaaaaaaaaaaaaaaaaaaaaaaaaaaaaaaaaaaa''"

text \<open>A call that times out twice and then answers.\<close>

definition flaky :: "nat \<Rightarrow> (exn + int) \<times> nat" where
  "flaky n = (if n < 2 then Inl (RpcError ''timeout'') else Inr 5, Suc n)"

section \<open>Encoding lemmas\<close>

lemma be_digits_length: "length (be_digits k n) = k"
  by (induction k arbitrary: n) auto

lemma byte_mod: "(word_of_int (n mod 256) :: byte) = word_of_int n"
  by (simp add: word_uint_eq_iff uint_word_of_int)

lemma rev_upt_Suc: "rev [0..<Suc k] = map Suc (rev [0..<k]) @ [0]"
proof -
  have "[0..<Suc k] = 0 # map Suc [0..<k]"
    by (simp add: upt_conv_Cons map_Suc_upt del: upt_Suc)
  then show ?thesis by (simp add: rev_map del: upt_Suc)
qed

lemma drop_bit_div256: "drop_bit (8 * Suc i) (n :: int) = drop_bit (8 * i) (n div 256)"
proof -
  have "drop_bit (8 * Suc i) n = drop_bit (8 * i) (drop_bit 8 n)"
    by (simp add: add.commute)
  also have "drop_bit 8 n = n div 256"
    by (simp add: drop_bit_eq_div)
  finally show ?thesis .
qed

lemma be_digits_drop_bit:
  "be_digits k n = map (\<lambda>i. word_of_int (drop_bit (8 * i) n)) (rev [0..<k])"
proof (induction k arbitrary: n)
  case 0
  show ?case by simp
next
  case (Suc k)
  have "be_digits (Suc k) n = be_digits k (n div 256) @ [word_of_int n]"
    by (simp add: byte_mod)
  also have "be_digits k (n div 256) =
      map (\<lambda>i. word_of_int (drop_bit (8 * i) (n div 256))) (rev [0..<k])"
    by (rule Suc.IH)
  also have "\<dots> = map (\<lambda>i. word_of_int (drop_bit (8 * i) n)) (map Suc (rev [0..<k]))"
    by (simp add: drop_bit_div256 comp_def del: mult_Suc_right)
  finally show ?case
    by (simp only: rev_upt_Suc map_append list.map drop_bit_0 mult_0_right id_apply)
qed

lemma rev_upt_8: "rev [0..<8] = [7, 6, 5, 4, 3, 2, 1, 0::nat]"
  by (simp add: upt_rec)

lemma byte_of_drop:
  "(word_of_int (drop_bit n (uint (w :: 64 word))) :: byte) = ucast (drop_bit n w)"
proof -
  have "uint (drop_bit n w) = drop_bit n (uint w)"
    by (rule bit_eqI) (simp add: bit_unsigned_iff bit_drop_bit_eq)
  then have "(word_of_int (drop_bit n (uint w)) :: byte) = word_of_int (uint (drop_bit n w))"
    by simp
  then show ?thesis
    by (simp only: of_int_uint)
qed

lemma be_digits8: "be_digits 8 (uint (w :: 64 word)) = spec_be64 w"
  by (simp add: be_digits_drop_bit rev_upt_8 spec_be64_def byte_of_drop del: be_digits.simps)

lemma to_bytes_u64: "to_bytes (uint (w :: 64 word)) 8 = Inr (spec_be64 w)"
proof -
  have "uint w < 2 ^ 64" using uint_bounded [of w] by simp
  then have "\<not> 256 ^ 8 \<le> uint w" by simp
  then show ?thesis
    unfolding to_bytes_def using be_digits8 [of w] by (simp del: be_digits.simps)
qed

lemma to_bytes_8_in_range:
  assumes "0 \<le> n" and "n < 2 ^ 64"
  shows "to_bytes n 8 = Inr (spec_be64 (word_of_int n))"
proof -
  have "uint (word_of_int n :: 64 word) = n"
    using assms by (simp add: uint_word_of_int take_bit_eq_mod)
  then show ?thesis
    using to_bytes_u64 [of "word_of_int n"] by simp
qed

lemma to_bytes_1_in_range:
  assumes "0 \<le> n" and "n < 2 ^ 8"
  shows "to_bytes n 1 = Inr [word_of_int n]"
  using assms by (simp add: to_bytes_def byte_mod)

lemma to_bytes_Inr_iff: "(\<exists>bs. to_bytes n len = Inr bs) \<longleftrightarrow> 0 \<le> n \<and> n < 256 ^ len"
  by (auto simp: to_bytes_def)

lemma to_bytes_Inl: "to_bytes n len = Inl e \<Longrightarrow> e = OverflowError"
  by (auto simp: to_bytes_def split: if_splits)

lemma hex_digit_lower:
  "d < 16 \<Longrightarrow> hex_digit_value (lower_hex_digit d) = Some d \<and> \<not> Py_ISSPACE (lower_hex_digit d)"
  by (simp add: hex_digit_value_def lower_hex_digit_def Py_ISSPACE_def Let_def)

lemma byte_nibbles: "(word_of_nat (16 * (unat (b :: byte) div 16) + unat b mod 16) :: byte) = b"
  by simp

lemma fromhex_roundtrip: "fromhex (spec_hex_of_bytes bs) = Inr bs"
proof (induction bs)
  case Nil
  show ?case by simp
next
  case (Cons b bs)
  have hi: "unat b div 16 < 16"
    using unsigned_less [of b, where ?'a = nat] by simp
  have lo: "unat b mod 16 < 16" by simp
  show ?case
    using hex_digit_lower [OF hi] hex_digit_lower [OF lo] Cons.IH
    by (simp add: byte_nibbles)
qed

lemma spec_be64_length: "length (spec_be64 w) = 8"
  by (simp add: spec_be64_def)

section \<open>Commitment derivation: layout\<close>

text \<open>
  C1. For a chain id, a block number and a gas amount that fit in 64 bits, a status that
  fits in one byte and a 32-byte transaction hash written as \<open>0x\<close> and its 64
  hexadecimal digits, \<open>build_commitment\<close> of \<open>txbatch.py\<close> and \<open>txapp.py\<close> returns \<open>0x\<close>
  followed by the library's rendering of the Keccak digest of the preimage
  chainId (8 bytes) \<open>@\<close> txHash (32 bytes) \<open>@\<close> blockNumber (8 bytes) \<open>@\<close> status (1 byte)
  \<open>@\<close> gasUsed (8 bytes), every integer big-endian; the encoding inside
  \<open>build_commitment\<close> of \<open>tx_batch_auditor.py\<close> hashes the same preimage; and the preimage
  has 57 bytes.
\<close>

theorem commitment_layout:
  assumes "0 \<le> chain_id" and "chain_id < 2 ^ 64"
      and "0 \<le> block_number" and "block_number < 2 ^ 64"
      and "0 \<le> status" and "status < 2 ^ 8"
      and "0 \<le> gas_used" and "gas_used < 2 ^ 64"
      and "length h32 = 32"
  shows "build_commitment lib chain_id (spec_tx_hash_string h32) block_number status gas_used =
           Inr (''0x'' @ hexbytes_hex lib (keccak lib
                  (spec_preimage (word_of_int chain_id) h32 (word_of_int block_number)
                     (word_of_int status) (word_of_int gas_used))))
         \<and> encode_commitment lib chain_id (spec_tx_hash_string h32)
             \<lparr>rcpt_blockNumber = block_number, rcpt_status = status, rcpt_gasUsed = gas_used,
              rcpt_effectiveGasPrice = price\<rparr> =
           Inr \<lparr>ci_chainId = chain_id, ci_blockNumber = block_number, ci_status = status,
                ci_gasUsed = gas_used,
                ci_commitment = hexbytes_hex lib (keccak lib
                  (spec_preimage (word_of_int chain_id) h32 (word_of_int block_number)
                     (word_of_int status) (word_of_int gas_used)))\<rparr>
         \<and> length (spec_preimage (word_of_int chain_id) h32 (word_of_int block_number)
                     (word_of_int status) (word_of_int gas_used)) = 57"
proof -
  have c: "to_bytes chain_id 8 = Inr (spec_be64 (word_of_int chain_id))"
    using assms(1,2) by (rule to_bytes_8_in_range)
  have b: "to_bytes block_number 8 = Inr (spec_be64 (word_of_int block_number))"
    using assms(3,4) by (rule to_bytes_8_in_range)
  have s: "to_bytes status 1 = Inr [word_of_int status]"
    using assms(5,6) by (rule to_bytes_1_in_range)
  have g: "to_bytes gas_used 8 = Inr (spec_be64 (word_of_int gas_used))"
    using assms(7,8) by (rule to_bytes_8_in_range)
  have h: "fromhex (drop 2 (spec_tx_hash_string h32)) = Inr h32"
    by (simp add: spec_tx_hash_string_def fromhex_roundtrip)
  have 1: "build_commitment lib chain_id (spec_tx_hash_string h32) block_number status gas_used =
           Inr (''0x'' @ hexbytes_hex lib (keccak lib
                  (spec_preimage (word_of_int chain_id) h32 (word_of_int block_number)
                     (word_of_int status) (word_of_int gas_used))))"
    unfolding build_commitment_def spec_preimage_def by (simp only: c b s g h sum.case)
  have 2: "encode_commitment lib chain_id (spec_tx_hash_string h32)
             \<lparr>rcpt_blockNumber = block_number, rcpt_status = status, rcpt_gasUsed = gas_used,
              rcpt_effectiveGasPrice = price\<rparr> =
           Inr \<lparr>ci_chainId = chain_id, ci_blockNumber = block_number, ci_status = status,
                ci_gasUsed = gas_used,
                ci_commitment = hexbytes_hex lib (keccak lib
                  (spec_preimage (word_of_int chain_id) h32 (word_of_int block_number)
                     (word_of_int status) (word_of_int gas_used)))\<rparr>"
  proof -
    from s have s': "to_bytes status (Suc 0) = Inr [word_of_int status]" by simp
    show ?thesis
      unfolding encode_commitment_def spec_preimage_def by (simp add: c b s' g h Let_def)
  qed
  have 3: "length (spec_preimage (word_of_int chain_id) h32 (word_of_int block_number)
                     (word_of_int status) (word_of_int gas_used)) = 57"
    using assms(9) by (simp add: spec_preimage_def spec_be64_length)
  from 1 2 3 show ?thesis by blast
qed

theorem commitment_layout_witness:
  "build_commitment echo_lib 1 (spec_tx_hash_string (replicate 32 171)) 100 1 21000 =
     Inr (''0x'' @ spec_hex_of_bytes
            ([0, 0, 0, 0, 0, 0, 0, 1] @ replicate 32 171 @
             [0, 0, 0, 0, 0, 0, 0, 100, 1, 0, 0, 0, 0, 0, 0, 82, 8]))"
proof -
  have pre: "spec_preimage 1 (replicate 32 171) 100 1 21000 =
      [0, 0, 0, 0, 0, 0, 0, 1] @ replicate 32 171 @
      [0, 0, 0, 0, 0, 0, 0, 100, 1, 0, 0, 0, 0, 0, 0, 82, 8]"
    by (simp add: spec_preimage_def spec_be64_def)
  have "build_commitment echo_lib 1 (spec_tx_hash_string (replicate 32 171)) 100 1 21000 =
      Inr (''0x'' @ hexbytes_hex echo_lib (keccak echo_lib
             (spec_preimage 1 (replicate 32 171) 100 1 21000)))"
    using commitment_layout [of 1 100 1 21000 "replicate 32 171" echo_lib] by simp
  then show ?thesis
    by (simp add: pre echo_lib_def)
qed

section \<open>Evaluation on the concrete inputs\<close>

lemma hex_digit_a: "hex_digit_value CHR ''a'' = Some 10" "\<not> Py_ISSPACE CHR ''a''"
  by (simp_all add: hex_digit_value_def Py_ISSPACE_def)

lemma hex_digit_b: "hex_digit_value CHR ''b'' = Some 11" "\<not> Py_ISSPACE CHR ''b''"
  by (simp_all add: hex_digit_value_def Py_ISSPACE_def)

lemma replicate_32:
  "replicate 32 x = [x, x, x, x, x, x, x, x, x, x, x, x, x, x, x, x,
                     x, x, x, x, x, x, x, x, x, x, x, x, x, x, x, x]"
  by (simp add: numeral_eq_Suc)

lemma fromhex_hash_a: "fromhex (drop 2 hash_a) = Inr (replicate 32 170)"
  by (simp add: hash_a_def hex_digit_a replicate_32)

lemma fromhex_hash_b: "fromhex (drop 2 hash_b) = Inr (replicate 32 187)"
  by (simp add: hash_b_def hex_digit_b replicate_32)

lemma build_commitment_in_range:
  assumes "0 \<le> chain_id" and "chain_id < 2 ^ 64"
      and "0 \<le> block_number" and "block_number < 2 ^ 64"
      and "0 \<le> status" and "status < 2 ^ 8"
      and "0 \<le> gas_used" and "gas_used < 2 ^ 64"
      and "fromhex (drop 2 tx_hash_hex) = Inr tx_bytes"
  shows "build_commitment lib chain_id tx_hash_hex block_number status gas_used =
           Inr (''0x'' @ hexbytes_hex lib (keccak lib
                  (be_digits 8 chain_id @ tx_bytes @ be_digits 8 block_number @
                   be_digits 1 status @ be_digits 8 gas_used)))"
  using assms unfolding build_commitment_def to_bytes_def
  by (simp del: be_digits.simps)

lemma be_digits_samples:
  "be_digits 8 1 = [0, 0, 0, 0, 0, 0, 0, 1]"
  "be_digits 8 137 = [0, 0, 0, 0, 0, 0, 0, 137]"
  "be_digits 8 100 = [0, 0, 0, 0, 0, 0, 0, 100]"
  "be_digits 8 21000 = [0, 0, 0, 0, 0, 0, 82, 8]"
  "be_digits 8 21001 = [0, 0, 0, 0, 0, 0, 82, 9]"
  "be_digits 1 0 = [0]"
  "be_digits 1 1 = [1]"
  "be_digits 1 2 = [2]"
  "be_digits (Suc 0) 0 = [0]"
  "be_digits (Suc 0) 1 = [1]"
  "be_digits (Suc 0) 2 = [2]"
  by (simp_all add: be_digits_drop_bit rev_upt_8 drop_bit_eq_div del: be_digits.simps)

text \<open>The digest text of the sample receipts: chain id, hash byte, status byte, last gas byte.\<close>

lemma commitment_hash_a:
  "build_commitment echo_lib 1 hash_a 100 1 21000 =
     Inr (''0x'' @ spec_hex_of_bytes
            ([0, 0, 0, 0, 0, 0, 0, 1] @ replicate 32 170 @
             [0, 0, 0, 0, 0, 0, 0, 100, 1, 0, 0, 0, 0, 0, 0, 82, 8]))"
proof -
  have "build_commitment echo_lib 1 hash_a 100 1 21000 =
           Inr (''0x'' @ hexbytes_hex echo_lib (keccak echo_lib
                  (be_digits 8 1 @ replicate 32 170 @ be_digits 8 100 @
                   be_digits 1 1 @ be_digits 8 21000)))"
    by (rule build_commitment_in_range) (simp_all add: fromhex_hash_a)
  then show ?thesis
    by (simp add: echo_lib_def be_digits_samples del: be_digits.simps spec_hex_of_bytes.simps)
qed

lemma rpc_apply: "f (net w) = (r, n) \<Longrightarrow> rpc f w = (r, w\<lparr>net := n\<rparr>)"
  by (simp add: rpc_def)

lemma safe_rpc_call_value:
  "func (net w) = (Inr v, n) \<Longrightarrow>
     safe_rpc_call func 3 delay w = (Inr (Some v), \<lparr>net = n, trace = trace w @ [Invoke]\<rparr>)"
  by (simp add: safe_rpc_call_def upto.simps rpc_def emit_def)

lemma fetch_bundle_table:
  assumes "receipts txh = Inr (Some r)"
  shows "fetch_bundle lib (table_provider cid receipts) txh w =
           (make_bundle lib (Some cid) txh r (Some sample_tx),
            \<lparr>net = Suc (Suc (Suc (net w))), trace = trace w @ [Invoke, Invoke, Invoke]\<rparr>)"
  using assms
  by (simp add: fetch_bundle_def fetch_rcpt_tx_def table_provider_def safe_rpc_call_value
      py_none_def)

lemma auditor_build_commitment_table:
  assumes "receipts txh = Inr (Some r)"
  shows "auditor_build_commitment lib (table_provider cid receipts) txh w =
           (encode_commitment lib cid txh r, \<lparr>net = Suc (Suc (net w)), trace = trace w\<rparr>)"
  using assms
  by (simp add: auditor_build_commitment_def table_provider_def rpc_def)

lemma encode_commitment_eq:
  "encode_commitment lib chain_id tx_hash r =
     (case build_commitment lib chain_id tx_hash (rcpt_blockNumber r) (rcpt_status r)
             (rcpt_gasUsed r) of
        Inl e \<Rightarrow> Inl e
      | Inr c \<Rightarrow> Inr \<lparr>ci_chainId = chain_id, ci_blockNumber = rcpt_blockNumber r,
                       ci_status = rcpt_status r, ci_gasUsed = rcpt_gasUsed r,
                       ci_commitment = drop 2 c\<rparr>)"
  by (simp add: encode_commitment_def build_commitment_def Let_def split: sum.splits)

section \<open>Commitment derivation: determinism\<close>

lemma make_bundle_commitment:
  "make_bundle lib cid txh r tx = Inr b \<Longrightarrow>
     build_commitment lib (b_chain_id b) txh (b_block_number b) (b_status b) (b_gas_used b) =
       Inr (b_commitment b)"
  by (auto simp: make_bundle_def Let_def split: option.splits sum.splits)

lemma fetch_bundle_commitment:
  "fetch_bundle lib w3 txh w = (Inr b, w') \<Longrightarrow>
     build_commitment lib (b_chain_id b) txh (b_block_number b) (b_status b) (b_gas_used b) =
       Inr (b_commitment b)"
  unfolding fetch_bundle_def
  by (auto split: prod.splits sum.splits option.splits dest: make_bundle_commitment)

lemma encode_commitment_build:
  "encode_commitment lib chain_id tx_hash r = Inr i \<Longrightarrow>
     build_commitment lib (ci_chainId i) tx_hash (ci_blockNumber i) (ci_status i) (ci_gasUsed i) =
       Inr (''0x'' @ ci_commitment i)"
  by (auto simp: encode_commitment_def build_commitment_def Let_def split: sum.splits)

lemma auditor_build_commitment_build:
  "auditor_build_commitment lib w3 tx_hash w = (Inr i, w') \<Longrightarrow>
     build_commitment lib (ci_chainId i) tx_hash (ci_blockNumber i) (ci_status i) (ci_gasUsed i) =
       Inr (''0x'' @ ci_commitment i)"
  unfolding auditor_build_commitment_def
  by (auto split: prod.splits sum.splits option.splits dest: encode_commitment_build)

text \<open>
  C2. The commitment is a function of the five fields alone: two bundles that
  \<open>fetch_bundle\<close> built for the same transaction hash, from any two providers in any two
  states of the world, have equal commitments whenever their chain id, block number,
  status and gas used are equal; the same holds for two results of \<open>build_commitment\<close> of
  \<open>tx_batch_auditor.py\<close>.
\<close>

theorem commitment_deterministic:
  "(fetch_bundle lib p1 txh w1 = (Inr b1, w1') \<and> fetch_bundle lib p2 txh w2 = (Inr b2, w2')
      \<and> b_chain_id b1 = b_chain_id b2 \<and> b_block_number b1 = b_block_number b2
      \<and> b_status b1 = b_status b2 \<and> b_gas_used b1 = b_gas_used b2
    \<longrightarrow> b_commitment b1 = b_commitment b2)
   \<and> (auditor_build_commitment lib q1 txh v1 = (Inr i1, v1')
      \<and> auditor_build_commitment lib q2 txh v2 = (Inr i2, v2')
      \<and> ci_chainId i1 = ci_chainId i2 \<and> ci_blockNumber i1 = ci_blockNumber i2
      \<and> ci_status i1 = ci_status i2 \<and> ci_gasUsed i1 = ci_gasUsed i2
    \<longrightarrow> ci_commitment i1 = ci_commitment i2)"
proof (intro conjI impI)
  assume a: "fetch_bundle lib p1 txh w1 = (Inr b1, w1') \<and> fetch_bundle lib p2 txh w2 = (Inr b2, w2')
      \<and> b_chain_id b1 = b_chain_id b2 \<and> b_block_number b1 = b_block_number b2
      \<and> b_status b1 = b_status b2 \<and> b_gas_used b1 = b_gas_used b2"
  from a have f1: "fetch_bundle lib p1 txh w1 = (Inr b1, w1')" by (rule conjunct1)
  from a have f2: "fetch_bundle lib p2 txh w2 = (Inr b2, w2')" by blast
  from a have same: "b_chain_id b1 = b_chain_id b2" "b_block_number b1 = b_block_number b2"
      "b_status b1 = b_status b2" "b_gas_used b1 = b_gas_used b2"
    by blast+
  have "Inr (b_commitment b1) = build_commitment lib (b_chain_id b1) txh (b_block_number b1)
          (b_status b1) (b_gas_used b1)"
    using fetch_bundle_commitment [OF f1] by simp
  also have "\<dots> = Inr (b_commitment b2)"
    unfolding same using fetch_bundle_commitment [OF f2] .
  finally show "b_commitment b1 = b_commitment b2" by simp
next
  assume a: "auditor_build_commitment lib q1 txh v1 = (Inr i1, v1')
      \<and> auditor_build_commitment lib q2 txh v2 = (Inr i2, v2')
      \<and> ci_chainId i1 = ci_chainId i2 \<and> ci_blockNumber i1 = ci_blockNumber i2
      \<and> ci_status i1 = ci_status i2 \<and> ci_gasUsed i1 = ci_gasUsed i2"
  from a have f1: "auditor_build_commitment lib q1 txh v1 = (Inr i1, v1')" by (rule conjunct1)
  from a have f2: "auditor_build_commitment lib q2 txh v2 = (Inr i2, v2')" by blast
  from a have same: "ci_chainId i1 = ci_chainId i2" "ci_blockNumber i1 = ci_blockNumber i2"
      "ci_status i1 = ci_status i2" "ci_gasUsed i1 = ci_gasUsed i2"
    by blast+
  have "Inr (''0x'' @ ci_commitment i1) = build_commitment lib (ci_chainId i1) txh
          (ci_blockNumber i1) (ci_status i1) (ci_gasUsed i1)"
    using auditor_build_commitment_build [OF f1] by simp
  also have "\<dots> = Inr (''0x'' @ ci_commitment i2)"
    unfolding same using auditor_build_commitment_build [OF f2] .
  finally show "ci_commitment i1 = ci_commitment i2" by simp
qed

theorem commitment_deterministic_witness:
  "fetch_bundle echo_lib (table_provider 1 (\<lambda>h. Inr (Some (receipt_of 1 21000 (Some 7)))))
       hash_a start =
     (Inr \<lparr>b_chain_id = 1, b_tx_hash = hash_a, b_from = ''0xfrom'', b_to = Some ''0xto'',
           b_block_number = 100, b_status = 1, b_gas_used = 21000,
           b_total_fee_wei = Some 147000,
           b_commitment = ''0x'' @ spec_hex_of_bytes
             ([0, 0, 0, 0, 0, 0, 0, 1] @ replicate 32 170 @
              [0, 0, 0, 0, 0, 0, 0, 100, 1, 0, 0, 0, 0, 0, 0, 82, 8])\<rparr>,
      \<lparr>net = 3, trace = [Invoke, Invoke, Invoke]\<rparr>)
   \<and> fetch_bundle echo_lib (table_provider 1 (\<lambda>h. Inr (Some (receipt_of 1 21000 None))))
       hash_a start =
     (Inr \<lparr>b_chain_id = 1, b_tx_hash = hash_a, b_from = ''0xfrom'', b_to = Some ''0xto'',
           b_block_number = 100, b_status = 1, b_gas_used = 21000,
           b_total_fee_wei = Some 105000,
           b_commitment = ''0x'' @ spec_hex_of_bytes
             ([0, 0, 0, 0, 0, 0, 0, 1] @ replicate 32 170 @
              [0, 0, 0, 0, 0, 0, 0, 100, 1, 0, 0, 0, 0, 0, 0, 82, 8])\<rparr>,
      \<lparr>net = 3, trace = [Invoke, Invoke, Invoke]\<rparr>)
   \<and> auditor_build_commitment echo_lib
       (table_provider 1 (\<lambda>h. Inr (Some (receipt_of 1 21000 (Some 7))))) hash_a start =
     (Inr \<lparr>ci_chainId = 1, ci_blockNumber = 100, ci_status = 1, ci_gasUsed = 21000,
           ci_commitment = spec_hex_of_bytes
             ([0, 0, 0, 0, 0, 0, 0, 1] @ replicate 32 170 @
              [0, 0, 0, 0, 0, 0, 0, 100, 1, 0, 0, 0, 0, 0, 0, 82, 8])\<rparr>,
      \<lparr>net = 2, trace = []\<rparr>)
   \<and> auditor_build_commitment echo_lib
       (table_provider 1 (\<lambda>h. Inr (Some (receipt_of 1 21000 None)))) hash_a start =
     (Inr \<lparr>ci_chainId = 1, ci_blockNumber = 100, ci_status = 1, ci_gasUsed = 21000,
           ci_commitment = spec_hex_of_bytes
             ([0, 0, 0, 0, 0, 0, 0, 1] @ replicate 32 170 @
              [0, 0, 0, 0, 0, 0, 0, 100, 1, 0, 0, 0, 0, 0, 0, 82, 8])\<rparr>,
      \<lparr>net = 2, trace = []\<rparr>)"
proof -
  let ?p1 = "table_provider 1 (\<lambda>h. Inr (Some (receipt_of 1 21000 (Some 7))))"
  let ?p2 = "table_provider 1 (\<lambda>h. Inr (Some (receipt_of 1 21000 None)))"
  let ?c = "spec_hex_of_bytes
             ([0, 0, 0, 0, 0, 0, 0, 1] @ replicate 32 170 @
              [0, 0, 0, 0, 0, 0, 0, 100, 1, 0, 0, 0, 0, 0, 0, 82, 8])"
  let ?b1 = "\<lparr>b_chain_id = 1, b_tx_hash = hash_a, b_from = ''0xfrom'', b_to = Some ''0xto'',
           b_block_number = 100, b_status = 1, b_gas_used = 21000,
           b_total_fee_wei = Some 147000, b_commitment = ''0x'' @ ?c\<rparr>"
  let ?b2 = "\<lparr>b_chain_id = 1, b_tx_hash = hash_a, b_from = ''0xfrom'', b_to = Some ''0xto'',
           b_block_number = 100, b_status = 1, b_gas_used = 21000,
           b_total_fee_wei = Some 105000, b_commitment = ''0x'' @ ?c\<rparr>"
  let ?i = "\<lparr>ci_chainId = 1, ci_blockNumber = 100, ci_status = 1, ci_gasUsed = 21000,
           ci_commitment = ?c\<rparr>"
  let ?w3 = "\<lparr>net = 3, trace = [Invoke, Invoke, Invoke]\<rparr> :: nat world"
  let ?w2 = "\<lparr>net = 2, trace = []\<rparr> :: nat world"
  have f1: "fetch_bundle echo_lib ?p1 hash_a start = (Inr ?b1, ?w3)"
    by (simp add: fetch_bundle_table make_bundle_def receipt_of_def commitment_hash_a
        sample_tx_def start_def numeral_3_eq_3 del: spec_hex_of_bytes.simps)
  have f2: "fetch_bundle echo_lib ?p2 hash_a start = (Inr ?b2, ?w3)"
    by (simp add: fetch_bundle_table make_bundle_def receipt_of_def commitment_hash_a
        sample_tx_def start_def numeral_3_eq_3 del: spec_hex_of_bytes.simps)
  have g1: "auditor_build_commitment echo_lib ?p1 hash_a start = (Inr ?i, ?w2)"
    by (simp add: auditor_build_commitment_table encode_commitment_eq receipt_of_def
        commitment_hash_a start_def numeral_2_eq_2 del: spec_hex_of_bytes.simps)
  have g2: "auditor_build_commitment echo_lib ?p2 hash_a start = (Inr ?i, ?w2)"
    by (simp add: auditor_build_commitment_table encode_commitment_eq receipt_of_def
        commitment_hash_a start_def numeral_2_eq_2 del: spec_hex_of_bytes.simps)
  from commitment_deterministic [of echo_lib ?p1 hash_a start ?b1 ?w3 ?p2 start ?b2 ?w3
      ?p1 start ?i ?w2 ?p2 start ?i ?w2] f1 f2 g1 g2
  show ?thesis by (simp del: spec_hex_of_bytes.simps)
qed

section \<open>Commitment derivation: rejected inputs\<close>

text \<open>
  C5, as amended. \<open>build_commitment\<close> raises exactly when the chain id, the block number
  or the gas used is negative or at least \<open>2 ^ 64\<close>, or the status is negative or at
  least 256, or the text after the first two characters of the hash is not accepted by
  \<open>bytes.fromhex\<close>. Nothing is truncated; every status from 0 to 255 is accepted, not only
  0 and 1.
\<close>

theorem commitment_rejects:
  "(\<exists>e. build_commitment lib chain_id tx_hash_hex block_number status gas_used = Inl e) \<longleftrightarrow>
     \<not> (0 \<le> chain_id \<and> chain_id < 2 ^ 64 \<and> (\<exists>bs. fromhex (drop 2 tx_hash_hex) = Inr bs)
        \<and> 0 \<le> block_number \<and> block_number < 2 ^ 64
        \<and> 0 \<le> status \<and> status < 2 ^ 8
        \<and> 0 \<le> gas_used \<and> gas_used < 2 ^ 64)"
  by (auto simp: build_commitment_def to_bytes_def split: sum.splits if_splits)

theorem commitment_rejects_witness:
  "(\<exists>e. build_commitment echo_lib 1 hash_a 100 256 21000 = Inl e)
   \<and> (\<exists>e. build_commitment echo_lib 1 hash_a (2 ^ 64) 1 21000 = Inl e)
   \<and> (\<exists>e. build_commitment echo_lib 1 hash_a 100 1 (- 1) = Inl e)
   \<and> \<not> (\<exists>e. build_commitment echo_lib 1 hash_a 100 255 21000 = Inl e)"
  using commitment_rejects [of echo_lib 1 hash_a 100 256 21000]
    commitment_rejects [of echo_lib 1 hash_a "2 ^ 64" 1 21000]
    commitment_rejects [of echo_lib 1 hash_a 100 1 "- 1"]
    commitment_rejects [of echo_lib 1 hash_a 100 255 21000]
  by (simp add: fromhex_hash_a)

text \<open>
  The claim as first stated fails: the status 2 is not rejected.
\<close>

theorem commitment_rejects_counterexample:
  "build_commitment echo_lib 1 hash_a 100 2 21000 =
     Inr (''0x'' @ spec_hex_of_bytes
            ([0, 0, 0, 0, 0, 0, 0, 1] @ replicate 32 170 @
             [0, 0, 0, 0, 0, 0, 0, 100, 2, 0, 0, 0, 0, 0, 0, 82, 8]))"
proof -
  have "build_commitment echo_lib 1 hash_a 100 2 21000 =
           Inr (''0x'' @ hexbytes_hex echo_lib (keccak echo_lib
                  (be_digits 8 1 @ replicate 32 170 @ be_digits 8 100 @
                   be_digits 1 2 @ be_digits 8 21000)))"
    by (rule build_commitment_in_range) (simp_all add: fromhex_hash_a)
  moreover have "be_digits 8 1 = [0, 0, 0, 0, 0, 0, 0, 1]"
    and "be_digits 8 100 = [0, 0, 0, 0, 0, 0, 0, 100]"
    and "be_digits 1 2 = [2]"
    and "be_digits 8 21000 = [0, 0, 0, 0, 0, 0, 82, 8]"
    by (simp_all add: be_digits_drop_bit rev_upt_8 drop_bit_eq_div del: be_digits.simps)
  ultimately show ?thesis
    by (simp add: echo_lib_def del: be_digits.simps spec_hex_of_bytes.simps)
qed

section \<open>Retry executor: bound on the attempts\<close>

lemma safe_rpc_loop_shape:
  assumes "attempts \<noteq> []" and "last attempts = retries" and "retries \<notin> set (butlast attempts)"
      and "safe_rpc_loop func retries delay attempts w = (r, w')"
  shows "\<exists>n. 1 \<le> n \<and> n \<le> length attempts
           \<and> filter is_call_or_sleep (trace w') =
               filter is_call_or_sleep (trace w) @
                 Invoke # concat (replicate (n - 1) [Sleep delay, Invoke])
           \<and> r = map_sum (\<lambda>e. e) Some (last (call_results func n (net w)))
           \<and> (\<forall>x \<in> set (butlast (call_results func n (net w))). \<exists>e. x = Inl e \<and> is_Exception e)
           \<and> ((\<exists>e. r = Inl e \<and> is_Exception e) \<longrightarrow> n = length attempts)"
  using assms
proof (induction attempts arbitrary: w)
  case Nil
  then show ?case by simp
next
  case (Cons a rest)
  obtain x n1 where call: "func (net w) = (x, n1)" by (cases "func (net w)")
  let ?w1 = "\<lparr>net = n1, trace = trace w @ [Invoke]\<rparr>"
  have rpc1: "rpc func (emit Invoke w) = (x, ?w1)"
    using call by (simp add: rpc_def emit_def)
  have one: "call_results func 1 (net w) = [x]"
    using call by simp
  consider (returned) v where "x = Inr v"
    | (fatal) e where "x = Inl e" "\<not> is_Exception e"
    | (final) e where "x = Inl e" "is_Exception e" "a = retries"
    | (again) e where "x = Inl e" "is_Exception e" "a \<noteq> retries"
    by (cases x) auto
  then show ?case
  proof cases
    case returned
    with Cons.prems(4) rpc1 have "r = Inr (Some v)" "w' = ?w1" by simp_all
    with returned one show ?thesis
      by (intro exI [of _ 1]) simp
  next
    case fatal
    with Cons.prems(4) rpc1 have "r = Inl e" "w' = ?w1" by simp_all
    with fatal one show ?thesis
      by (intro exI [of _ 1]) simp
  next
    case final
    with Cons.prems(4) rpc1 have res: "r = Inl e" "w' = emit (FailAttempts retries e) ?w1"
      by simp_all
    have "rest = []"
    proof (rule ccontr)
      assume "rest \<noteq> []"
      then have "a \<in> set (butlast (a # rest))" by simp
      with final(3) Cons.prems(3) show False by simp
    qed
    with final res one show ?thesis
      by (intro exI [of _ 1]) (simp add: emit_def)
  next
    case again
    let ?w2 = "emit (Sleep delay) (emit (WarnAttempt a retries e) ?w1)"
    from again Cons.prems(4) rpc1
    have rec: "safe_rpc_loop func retries delay rest ?w2 = (r, w')" by simp
    have ne: "rest \<noteq> []"
      using again(3) Cons.prems(2) by (cases rest) auto
    then have l: "last rest = retries" and b: "retries \<notin> set (butlast rest)"
      using Cons.prems(2,3) by auto
    from Cons.IH [OF ne l b rec]
    obtain n where n: "1 \<le> n" "n \<le> length rest"
      and tr: "filter is_call_or_sleep (trace w') =
               filter is_call_or_sleep (trace ?w2) @
                 Invoke # concat (replicate (n - 1) [Sleep delay, Invoke])"
      and rr: "r = map_sum (\<lambda>e. e) Some (last (call_results func n (net ?w2)))"
      and bl: "\<forall>x \<in> set (butlast (call_results func n (net ?w2))). \<exists>e. x = Inl e \<and> is_Exception e"
      and fin: "(\<exists>e. r = Inl e \<and> is_Exception e) \<longrightarrow> n = length rest"
      by blast
    have net2: "net ?w2 = n1" by (simp add: emit_def)
    from n(1) obtain m where m: "n = Suc m" by (cases n) auto
    have cr: "call_results func (Suc n) (net w) = x # call_results func n n1"
      using call by simp
    have nonempty: "call_results func n n1 \<noteq> []"
      using m by (simp split: prod.splits)
    have tr2: "filter is_call_or_sleep (trace ?w2) =
        filter is_call_or_sleep (trace w) @ [Invoke, Sleep delay]"
      by (simp add: emit_def)
    have "filter is_call_or_sleep (trace w') =
            filter is_call_or_sleep (trace w) @
              Invoke # concat (replicate (Suc n - 1) [Sleep delay, Invoke])"
      using tr tr2 m by simp
    moreover have "r = map_sum (\<lambda>e. e) Some (last (call_results func (Suc n) (net w)))"
      using rr net2 cr nonempty by simp
    moreover have "\<forall>y \<in> set (butlast (call_results func (Suc n) (net w))).
        \<exists>e. y = Inl e \<and> is_Exception e"
      using bl net2 cr nonempty again by simp
    moreover have "(\<exists>e. r = Inl e \<and> is_Exception e) \<longrightarrow> Suc n = length (a # rest)"
      using fin by simp
    ultimately show ?thesis
      using n by (intro exI [of _ "Suc n"]) (simp del: call_results.simps)
  qed
qed

lemma upto_from_1:
  assumes "1 \<le> (retries :: int)"
  shows "[1..retries] \<noteq> []" and "last [1..retries] = retries"
    and "retries \<notin> set (butlast [1..retries])" and "length [1..retries] = nat retries"
proof -
  have split: "[1..retries] = [1..retries - 1] @ [retries]"
    using assms by (simp add: upto_rec2)
  show "[1..retries] \<noteq> []" using split by simp
  show "last [1..retries] = retries" using split by simp
  show "retries \<notin> set (butlast [1..retries])" by (subst split) simp
  show "length [1..retries] = nat retries" using assms by simp
qed

text \<open>
  C10. For \<open>retries\<close> at least 1, \<open>safe_rpc_call\<close> returns after \<open>n\<close> calls of the wrapped
  function with \<open>1 \<le> n \<le> retries\<close>; the calls and sleeps it adds to the trace are a
  call, then \<open>n - 1\<close> times a sleep followed by a call, so every sleep lies between two
  attempts and none follows the last one; its result is the result of the last call
  (a value, or that call's exception re-raised); every earlier call raised an
  \<open>Exception\<close>; and when the result is an \<open>Exception\<close>, all \<open>retries\<close> attempts were made.
\<close>

theorem retry_bounded:
  assumes "1 \<le> retries" and "safe_rpc_call func retries delay w = (r, w')"
  shows "\<exists>n. 1 \<le> n \<and> int n \<le> retries
           \<and> filter is_call_or_sleep (trace w') =
               filter is_call_or_sleep (trace w) @
                 Invoke # concat (replicate (n - 1) [Sleep delay, Invoke])
           \<and> r = map_sum (\<lambda>e. e) Some (last (call_results func n (net w)))
           \<and> (\<forall>x \<in> set (butlast (call_results func n (net w))). \<exists>e. x = Inl e \<and> is_Exception e)
           \<and> ((\<exists>e. r = Inl e \<and> is_Exception e) \<longrightarrow> int n = retries)"
proof -
  from safe_rpc_loop_shape [OF upto_from_1(1-3) [OF assms(1)]
      assms(2) [unfolded safe_rpc_call_def]]
  obtain n where "1 \<le> n" "n \<le> length [1..retries]"
    and "filter is_call_or_sleep (trace w') =
               filter is_call_or_sleep (trace w) @
                 Invoke # concat (replicate (n - 1) [Sleep delay, Invoke])"
    and "r = map_sum (\<lambda>e. e) Some (last (call_results func n (net w)))"
    and "\<forall>x \<in> set (butlast (call_results func n (net w))). \<exists>e. x = Inl e \<and> is_Exception e"
    and "(\<exists>e. r = Inl e \<and> is_Exception e) \<longrightarrow> n = length [1..retries]"
    by blast
  then show ?thesis
    using assms(1) by (intro exI [of _ n]) (auto simp: upto_from_1(4))
qed

theorem retry_bounded_witness:
  "(1 :: int) \<le> 3
   \<and> safe_rpc_call flaky 3 1 start =
       (Inr (Some 5),
        \<lparr>net = 3,
         trace = [Invoke, WarnAttempt 1 3 (RpcError ''timeout''), Sleep 1,
                  Invoke, WarnAttempt 2 3 (RpcError ''timeout''), Sleep 1, Invoke]\<rparr>)
   \<and> (\<exists>n. 1 \<le> n \<and> int n \<le> 3
         \<and> [Invoke, Sleep 1, Invoke, Sleep 1, Invoke] =
             Invoke # concat (replicate (n - 1) [Sleep 1, Invoke])
         \<and> Inr (Some 5) = map_sum (\<lambda>e. e) Some (last (call_results flaky n 0)))"
proof -
  let ?w = "\<lparr>net = 3,
         trace = [Invoke, WarnAttempt 1 3 (RpcError ''timeout''), Sleep 1,
                  Invoke, WarnAttempt 2 3 (RpcError ''timeout''), Sleep 1, Invoke]\<rparr> :: nat world"
  have run: "safe_rpc_call flaky 3 1 start = (Inr (Some 5), ?w)"
    by (simp add: safe_rpc_call_def upto.simps flaky_def rpc_def emit_def start_def)
  from retry_bounded [of 3 flaky 1 start "Inr (Some 5)" ?w, OF _ run]
  obtain n where "1 \<le> n" "int n \<le> 3"
    and "filter is_call_or_sleep (trace ?w) =
           filter is_call_or_sleep (trace start) @
             Invoke # concat (replicate (n - 1) [Sleep 1, Invoke])"
    and "Inr (Some 5) = map_sum (\<lambda>e. e) Some (last (call_results flaky n (net start)))"
    by auto
  then have "1 \<le> n \<and> int n \<le> 3
         \<and> [Invoke, Sleep 1, Invoke, Sleep 1, Invoke] =
             Invoke # concat (replicate (n - 1) [Sleep 1, Invoke])
         \<and> Inr (Some 5) = map_sum (\<lambda>e. e) Some (last (call_results flaky n 0))"
    by (simp add: start_def)
  then have "\<exists>n. 1 \<le> n \<and> int n \<le> 3
         \<and> [Invoke, Sleep 1, Invoke, Sleep 1, Invoke] =
             Invoke # concat (replicate (n - 1) [Sleep 1, Invoke])
         \<and> Inr (Some 5) = map_sum (\<lambda>e. e) Some (last (call_results flaky n 0))"
    by (rule exI)
  with run show ?thesis
    by simp
qed

section \<open>Retry executor: a not-found result\<close>

text \<open>
  What holds of a not-found result that is returned as a value (a receipt that is
  \<open>None\<close>): any value the first call returns is handed back at once, with no sleep.
\<close>

lemma returned_value_not_retried:
  assumes "1 \<le> retries" and "func (net w) = (Inr v, n)"
  shows "safe_rpc_call func retries delay w =
           (Inr (Some v), \<lparr>net = n, trace = trace w @ [Invoke]\<rparr>)"
proof -
  have "[1..retries] = 1 # [2..retries]"
    using assms(1) by (simp add: upto_rec1)
  then show ?thesis
    using assms(2) by (simp add: safe_rpc_call_def rpc_def emit_def)
qed

text \<open>
  C3. The claim is that a not-found result is returned on the first attempt, without
  retry and without delay. The library signals an absent transaction by raising
  \<open>TransactionNotFound\<close>, which is an \<open>Exception\<close>: with the default three attempts the
  wrapper calls the provider three times and sleeps twice before it re-raises, and
  \<open>fetch_bundle\<close> passes the exception on only after that.
\<close>

theorem not_found_is_retried:
  "safe_rpc_call
     (eth_get_transaction_receipt (table_provider 1 (\<lambda>h. Inl TransactionNotFound)) hash_a)
     3 1 start =
   (Inl TransactionNotFound,
    \<lparr>net = 3,
     trace = [Invoke, WarnAttempt 1 3 TransactionNotFound, Sleep 1,
              Invoke, WarnAttempt 2 3 TransactionNotFound, Sleep 1,
              Invoke, FailAttempts 3 TransactionNotFound]\<rparr>)
   \<and> fetch_bundle echo_lib (table_provider 1 (\<lambda>h. Inl TransactionNotFound)) hash_a start =
   (Inl TransactionNotFound,
    \<lparr>net = 3,
     trace = [Invoke, WarnAttempt 1 3 TransactionNotFound, Sleep 1,
              Invoke, WarnAttempt 2 3 TransactionNotFound, Sleep 1,
              Invoke, FailAttempts 3 TransactionNotFound]\<rparr>)"
  by (simp add: fetch_bundle_def fetch_rcpt_tx_def fetch_handler_def safe_rpc_call_def
      upto.simps table_provider_def rpc_def emit_def start_def)

section \<open>More evaluation lemmas\<close>


lemma commitment_echo:
  assumes "0 \<le> c" and "c < 2 ^ 64" and "0 \<le> st" and "st < 2 ^ 8"
      and "0 \<le> g" and "g < 2 ^ 64"
  shows "build_commitment echo_lib c hash_a 100 st g =
           Inr (''0x'' @ spec_hex_of_bytes
                  (be_digits 8 c @ replicate 32 170 @ be_digits 8 100 @
                   be_digits 1 st @ be_digits 8 g))"
proof -
  have "build_commitment echo_lib c hash_a 100 st g =
           Inr (''0x'' @ hexbytes_hex echo_lib (keccak echo_lib
                  (be_digits 8 c @ replicate 32 170 @ be_digits 8 100 @
                   be_digits 1 st @ be_digits 8 g)))"
    using assms by (intro build_commitment_in_range) (simp_all add: fromhex_hash_a)
  then show ?thesis
    by (simp add: echo_lib_def del: be_digits.simps spec_hex_of_bytes.simps)
qed



lemma auditor_build_commitment_table_error:
  assumes "receipts txh = Inl e"
  shows "auditor_build_commitment lib (table_provider cid receipts) txh w =
           (Inl e, \<lparr>net = Suc (net w), trace = trace w\<rparr>)"
  using assms
  by (simp add: auditor_build_commitment_def table_provider_def rpc_def)

section \<open>The record of one audit\<close>

lemma audit_primary_fields:
  assumes "audit_primary lib w3 result w = (Inr r, w')"
  shows "txHash r = txHash result" and "secondary r = secondary result"
    and "match r = match result" and "errorSecondary r = errorSecondary result"
    and "primary r = (case fst (auditor_build_commitment lib w3 (txHash result) w) of
                        Inr p \<Rightarrow> Some p | Inl e \<Rightarrow> primary result)"
    and "errorPrimary r = (case fst (auditor_build_commitment lib w3 (txHash result) w) of
                        Inr p \<Rightarrow> errorPrimary result | Inl e \<Rightarrow> Some e)"
  using assms
  by (auto simp: audit_primary_def split: prod.splits sum.splits if_splits)

lemma audit_secondary_fields:
  assumes "audit_secondary lib (Some w3) result w = (Inr r, w')"
  shows "txHash r = txHash result" and "primary r = primary result"
    and "match r = match result" and "errorPrimary r = errorPrimary result"
    and "secondary r = (case fst (auditor_build_commitment lib w3 (txHash result) w) of
                        Inr p \<Rightarrow> Some p | Inl e \<Rightarrow> secondary result)"
    and "errorSecondary r = (case fst (auditor_build_commitment lib w3 (txHash result) w) of
                        Inr p \<Rightarrow> errorSecondary result | Inl e \<Rightarrow> Some e)"
  using assms
  by (auto simp: audit_secondary_def split: prod.splits sum.splits if_splits)

lemma compare_commitments_fields:
  "txHash (compare_commitments r) = txHash r"
  "primary (compare_commitments r) = primary r"
  "secondary (compare_commitments r) = secondary r"
  "errorPrimary (compare_commitments r) = errorPrimary r"
  "errorSecondary (compare_commitments r) = errorSecondary r"
  "match (compare_commitments r) =
     (case (primary r, secondary r) of
        (Some p, Some s) \<Rightarrow> Some (ci_commitment p = ci_commitment s)
      | _ \<Rightarrow> match r)"
  by (auto simp: compare_commitments_def split: option.splits)



section \<open>Evaluation of a run\<close>

lemma strip_hash_a: "strip hash_a = hash_a"
  by (simp add: strip_def hash_a_def Py_UNICODE_ISSPACE_def)

lemma parse_hash_a: "parse_tx_hash echo_lib hash_a = Some hash_a"
proof -
  have "prefixed_hex hash_a"
    by (simp add: prefixed_hex_def startswith_def hash_a_def hex_digit_a)
  moreover have "length hash_a = 66" "startswith hash_a ''0x''" "hash_a \<noteq> []"
    by (simp_all add: hash_a_def startswith_def)
  ultimately show ?thesis
    by (simp add: parse_tx_hash_def strip_hash_a echo_lib_def)
qed

lemma validate_hash_a: "validate_tx_hash hash_a"
  by (simp add: validate_tx_hash_def startswith_def hash_a_def py_int16_def to_ascii_def
      Py_ISSPACE_def skip_sign_def skip_prefix16_def hex_digit_a)

lemma unique_loop_one: "unique_loop [h] {} [] = [h]"
  by simp


lemma table_provider_sel:
  "is_connected (table_provider cid receipts) = (\<lambda>n. (True, n))"
  "eth_chain_id (table_provider cid receipts) = (\<lambda>n. (Inr cid, Suc n))"
  "eth_get_transaction_receipt (table_provider cid receipts) = (\<lambda>h n. (receipts h, Suc n))"
  "eth_get_transaction (table_provider cid receipts) = (\<lambda>h n. (Inr (Some sample_tx), Suc n))"
  by (simp_all add: table_provider_def)



lemma connect_table:
  "provider url = table_provider cid receipts \<Longrightarrow>
     connect provider url w = (Inr (table_provider cid receipts), w)"
  by (simp add: connect_def rpc_def table_provider_sel)

lemma two_chains_at:
  "two_chains ''primary'' = table_provider 1 (\<lambda>h. Inr (Some (receipt_of 1 21000 None)))"
  "two_chains ''secondary'' = table_provider 137 (\<lambda>h. Inr (Some (receipt_of 1 21000 None)))"
  by (simp_all add: two_chains_def)


section \<open>Providers on different chains\<close>

text \<open>
  The auditor compares the two chain ids once, before the loop: when they differ the
  check raises, and on the sample endpoints (chain ids 1 and 137) \<open>main\<close> exits with
  status 1 with no transaction audited.
\<close>

lemma auditor_stops_on_chain_mismatch:
  "auditor_main echo_lib two_chains auditor_one_hash_args start =
     (Inl (SystemExit 1), \<lparr>net = 4, trace = [ChainIdMismatch 1 137]\<rparr>)"
proof -
  have args: "a_rpc1 auditor_one_hash_args = ''primary''"
    "a_rpc2 auditor_one_hash_args = Some ''secondary''"
    "a_max auditor_one_hash_args = 0"
    "gather_hashes auditor_one_hash_args = Inr [hash_a]"
    by (simp_all add: auditor_one_hash_args_def gather_hashes_def)
  have clean: "clean_hashes [hash_a] = [hash_a]"
    using strip_hash_a by (simp add: clean_hashes_def hash_a_def)
  have "\<not> contains ''primary'' ''your_api_key''"
    by (simp add: startswith_def)
  then show ?thesis
    by (simp add: auditor_main_def args clean validate_hash_a cap_hashes_def
        connect_table [where cid = 1] connect_table [where cid = 137] two_chains_at
        connect_optional_def check_chain_ids_def read_chain_ids_def rpc_def
        table_provider_sel emit_def start_def eval_nat_numeral)
qed

lemma chain_ids_differ_is_fatal:
  assumes "eth_chain_id w3_primary (net w) = (Inr a, n1)"
      and "eth_chain_id w3_secondary n1 = (Inr b, n2)" and "a \<noteq> b"
  shows "\<exists>e w'. check_chain_ids w3_primary (Some w3_secondary) w = (Inl e, w')"
  using assms
  by (auto simp: check_chain_ids_def read_chain_ids_def rpc_def split: prod.splits sum.splits)


section \<open>The rows and the counters of the batch loop\<close>

lemma rows_emit:
  "rows (trace (emit e w)) = rows (trace w) @ (if is_verdict_row e then [e] else [])"
  by (simp add: rows_def emit_def)

lemma rpc_trace: "rpc f w = (r, w') \<Longrightarrow> trace w' = trace w"
  by (auto simp: rpc_def split: prod.splits)

lemma safe_rpc_loop_rows:
  "safe_rpc_loop func retries delay attempts w = (r, w') \<Longrightarrow> rows (trace w') = rows (trace w)"
proof (induction attempts arbitrary: w)
  case Nil
  then show ?case by simp
next
  case (Cons a rest)
  obtain x w1 where c: "rpc func (emit Invoke w) = (x, w1)"
    by (cases "rpc func (emit Invoke w)")
  have t1: "rows (trace w1) = rows (trace w)"
    using rpc_trace [OF c] by (simp add: rows_emit)
  show ?case
  proof (cases x)
    case (Inr v)
    with Cons.prems c t1 show ?thesis by simp
  next
    case (Inl e)
    show ?thesis
    proof (cases "is_Exception e \<and> a \<noteq> retries")
      case True
      with Cons.prems c Inl
      have "safe_rpc_loop func retries delay rest
              (emit (Sleep delay) (emit (WarnAttempt a retries e) w1)) = (r, w')"
        by simp
      from Cons.IH [OF this] t1 show ?thesis by (simp add: rows_emit)
    next
      case False
      with Cons.prems c Inl t1 show ?thesis
        by (auto simp: rows_emit split: if_splits)
    qed
  qed
qed

lemma safe_rpc_call_rows:
  "safe_rpc_call func retries delay w = (r, w') \<Longrightarrow> rows (trace w') = rows (trace w)"
  unfolding safe_rpc_call_def by (rule safe_rpc_loop_rows)

lemma fetch_handler_rows: "rows (trace (fetch_handler e w)) = rows (trace w)"
  by (simp add: fetch_handler_def rows_emit)

lemma fetch_rcpt_tx_rows:
  "fetch_rcpt_tx w3 txh w = (r, w') \<Longrightarrow> rows (trace w') = rows (trace w)"
  unfolding fetch_rcpt_tx_def
  by (auto split: prod.splits sum.splits simp: fetch_handler_rows dest!: safe_rpc_call_rows)

lemma fetch_bundle_rows:
  "fetch_bundle lib w3 txh w = (r, w') \<Longrightarrow> rows (trace w') = rows (trace w)"
  unfolding fetch_bundle_def
  by (auto split: prod.splits sum.splits option.splits
      dest!: safe_rpc_call_rows fetch_rcpt_tx_rows)

lemma cross_check_rows:
  "cross_check lib w3b txh b w = (r, w') \<Longrightarrow> rows (trace w') = rows (trace w)"
  unfolding cross_check_def
  by (auto split: prod.splits sum.splits option.splits if_splits simp: Let_def
      dest!: fetch_bundle_rows)

lemma cross_check_note:
  "cross_check lib w3b txh b w = (Inr (note, match_ok), w') \<Longrightarrow>
     (\<not> match_ok \<and> w3b \<noteq> None) = (note \<noteq> NoCross \<and> note \<noteq> CrossOk)"
  unfolding cross_check_def
  by (auto split: prod.splits sum.splits option.splits if_splits simp: Let_def)

lemma audit_loop_rows:
  "audit_loop lib w3 w3b tx_hashes c w = (Inr c', w') \<Longrightarrow>
     \<exists>new. rows (trace w') = rows (trace w) @ new
       \<and> map row_hash new = tx_hashes
       \<and> list_all is_verdict_row new
       \<and> success_count c' = success_count c + length (filter is_success_row new)
       \<and> fail_count c' = fail_count c + length (filter is_failed_row new)
       \<and> not_found_count c' = not_found_count c + length (filter is_not_found_row new)
       \<and> mismatch_count c' = mismatch_count c + length (filter is_mismatch_row new)
       \<and> pending_count c' = pending_count c"
proof (induction tx_hashes arbitrary: c w)
  case Nil
  then show ?case by simp
next
  case (Cons txh rest)
  obtain x w1 where f: "fetch_bundle lib w3 txh w = (x, w1)"
    by (cases "fetch_bundle lib w3 txh w")
  note r1 = fetch_bundle_rows [OF f]
  show ?case
  proof (cases x)
    case (Inl e)
    show ?thesis
    proof (cases "e = TransactionNotFound")
      case True
      with Cons.prems f Inl
      have "audit_loop lib w3 w3b rest (c\<lparr>not_found_count := not_found_count c + 1\<rparr>)
              (emit (NotFoundRow txh) w1) = (Inr c', w')"
        by simp
      from Cons.IH [OF this] obtain new where
        "rows (trace w') = rows (trace (emit (NotFoundRow txh) w1)) @ new"
        "map row_hash new = rest" "list_all is_verdict_row new"
        "success_count c' = success_count c + length (filter is_success_row new)"
        "fail_count c' = fail_count c + length (filter is_failed_row new)"
        "not_found_count c' = not_found_count c + 1 + length (filter is_not_found_row new)"
        "mismatch_count c' = mismatch_count c + length (filter is_mismatch_row new)"
        "pending_count c' = pending_count c"
        by auto
      then show ?thesis
        using r1 by (intro exI [of _ "NotFoundRow txh # new"]) (simp add: rows_emit)
    next
      case False
      with Cons.prems f Inl have ex: "is_Exception e"
        by (auto split: if_splits)
      with False Cons.prems f Inl
      have "audit_loop lib w3 w3b rest (c\<lparr>fail_count := fail_count c + 1\<rparr>)
              (emit (ErrorRow txh e) w1) = (Inr c', w')"
        by simp
      from Cons.IH [OF this] obtain new where
        "rows (trace w') = rows (trace (emit (ErrorRow txh e) w1)) @ new"
        "map row_hash new = rest" "list_all is_verdict_row new"
        "success_count c' = success_count c + length (filter is_success_row new)"
        "fail_count c' = fail_count c + 1 + length (filter is_failed_row new)"
        "not_found_count c' = not_found_count c + length (filter is_not_found_row new)"
        "mismatch_count c' = mismatch_count c + length (filter is_mismatch_row new)"
        "pending_count c' = pending_count c"
        by auto
      then show ?thesis
        using r1 by (intro exI [of _ "ErrorRow txh e # new"]) (simp add: rows_emit)
    qed
  next
    case (Inr b)
    obtain y w2 where x: "cross_check lib w3b txh b w1 = (y, w2)"
      by (cases "cross_check lib w3b txh b w1")
    from Cons.prems f Inr x obtain cn match_ok where y: "y = Inr (cn, match_ok)"
      by (cases y) auto
    note r2 = cross_check_rows [OF x]
    note nt = cross_check_note [OF x [unfolded y]]
    let ?c1 = "count_row b match_ok (w3b \<noteq> None) c"
    from Cons.prems f Inr x y
    have "audit_loop lib w3 w3b rest ?c1 (emit (Row txh b cn) w2) = (Inr c', w')"
      by simp
    from Cons.IH [OF this] obtain new where new:
      "rows (trace w') = rows (trace (emit (Row txh b cn) w2)) @ new"
      "map row_hash new = rest" "list_all is_verdict_row new"
      "success_count c' = success_count ?c1 + length (filter is_success_row new)"
      "fail_count c' = fail_count ?c1 + length (filter is_failed_row new)"
      "not_found_count c' = not_found_count ?c1 + length (filter is_not_found_row new)"
      "mismatch_count c' = mismatch_count ?c1 + length (filter is_mismatch_row new)"
      "pending_count c' = pending_count ?c1"
      by auto
    have c1: "success_count ?c1 = success_count c + (if b_status b = 1 then 1 else 0)"
      "fail_count ?c1 = fail_count c + (if b_status b = 1 then 0 else 1)"
      "not_found_count ?c1 = not_found_count c"
      "pending_count ?c1 = pending_count c"
      "mismatch_count ?c1 = mismatch_count c + (if cn \<noteq> NoCross \<and> cn \<noteq> CrossOk then 1 else 0)"
      using nt by (auto simp: count_row_def Let_def)
    show ?thesis
      using new r1 r2 c1
      by (intro exI [of _ "Row txh b cn # new"]) (simp add: rows_emit)
  qed
qed

lemma hash_a_neq_hash_b: "hash_b \<noteq> hash_a"
  by (simp add: hash_a_def hash_b_def)

lemma commitment_hash_a_failed:
  "build_commitment echo_lib 1 hash_a 100 0 21000 =
     Inr (''0x'' @ spec_hex_of_bytes
            ([0, 0, 0, 0, 0, 0, 0, 1] @ replicate 32 170 @
             [0, 0, 0, 0, 0, 0, 0, 100, 0, 0, 0, 0, 0, 0, 0, 82, 8]))"
  using commitment_echo [of 1 0 21000]
  by (simp add: be_digits_samples del: be_digits.simps spec_hex_of_bytes.simps)






section \<open>One verdict for each hash\<close>

lemma audit_tx_txHash:
  assumes "audit_tx lib h p s w = (Inr r, w')"
  shows "txHash r = h"
proof -
  let ?r0 = "\<lparr>txHash = h, primary = None, secondary = None, match = None,
              errorPrimary = None, errorSecondary = None\<rparr>"
  from assms obtain r1 w1 r2 where
    p: "audit_primary lib p ?r0 w = (Inr r1, w1)" and
    s: "audit_secondary lib s r1 w1 = (Inr r2, w')" and
    r: "r = compare_commitments r2"
    by (auto simp: audit_tx_def Let_def split: prod.splits sum.splits)
  have "txHash r2 = txHash r1"
  proof (cases s)
    case None
    with s show ?thesis by (simp add: audit_secondary_def)
  next
    case (Some w3s)
    with s show ?thesis by (simp add: audit_secondary_fields)
  qed
  with r audit_primary_fields(1) [OF p] show ?thesis
    by (simp add: compare_commitments_fields)
qed

lemma audit_tx_Inl:
  "audit_tx lib h p s w = (Inl e, w') \<Longrightarrow> \<not> is_Exception e"
  by (auto simp: audit_tx_def audit_primary_def audit_secondary_def Let_def
      split: prod.splits sum.splits option.splits if_splits)

lemma audit_all_Inl:
  "audit_all lib hashes p s acc w = (Inl e, w') \<Longrightarrow> \<not> is_Exception e"
proof (induction hashes arbitrary: acc w)
  case Nil
  then show ?case by simp
next
  case (Cons h hs)
  then show ?case
    by (auto split: prod.splits sum.splits dest: audit_tx_Inl)
qed

lemma audit_all_Inr:
  "audit_all lib hashes p s acc w = (Inr results, w') \<Longrightarrow>
     map txHash results = map txHash acc @ hashes"
proof (induction hashes arbitrary: acc w)
  case Nil
  then show ?case by simp
next
  case (Cons h hs)
  then show ?case
    by (auto split: prod.splits sum.splits dest: audit_tx_txHash)
qed

lemma report_Inr:
  "report json p s results w = (Inr rs, w') \<Longrightarrow> rs = results"
  by (auto simp: report_def split: prod.splits sum.splits option.splits)

lemma auditor_main_Inr:
  assumes "auditor_main lib provider args w = (Inr results, w')"
  shows "\<exists>hashes0. gather_hashes args = Inr hashes0
           \<and> list_all validate_tx_hash (clean_hashes hashes0)
           \<and> map txHash results = cap_hashes (a_max args) (clean_hashes hashes0)"
proof -
  from assms obtain hashes0 where g: "gather_hashes args = Inr hashes0"
    by (cases "gather_hashes args") (auto simp: auditor_main_def)
  let ?hs = "clean_hashes hashes0"
  from assms g have ne: "?hs \<noteq> []" and ok: "filter (\<lambda>h. \<not> validate_tx_hash h) ?hs = []"
    by (auto simp: auditor_main_def Let_def split: if_splits)
  from assms g ne ok obtain p s w3 rs w4 where
    "audit_all lib (cap_hashes (a_max args) ?hs) p s [] w3 = (Inr rs, w4)"
    "report (a_json args) p s rs w4 = (Inr results, w')"
    by (auto simp: auditor_main_def Let_def split: prod.splits sum.splits)
  then have "map txHash results = cap_hashes (a_max args) ?hs"
    by (auto dest!: audit_all_Inr report_Inr)
  moreover from ok have "list_all validate_tx_hash ?hs"
    by (simp add: filter_empty_conv list_all_iff)
  ultimately show ?thesis using g by blast
qed

lemma cross_check_Inl:
  "cross_check lib w3b txh b w = (Inl e, w') \<Longrightarrow> \<not> is_Exception e"
  by (auto simp: cross_check_def Let_def split: prod.splits sum.splits option.splits if_splits)

lemma audit_loop_Inl:
  "audit_loop lib w3 w3b tx_hashes c w = (Inl e, w') \<Longrightarrow> \<not> is_Exception e"
proof (induction tx_hashes arbitrary: c w)
  case Nil
  then show ?case by simp
next
  case (Cons txh rest)
  then show ?case
    by (auto split: prod.splits sum.splits if_splits dest: cross_check_Inl)
qed

lemma strip_hash_b: "strip hash_b = hash_b"
  by (simp add: strip_def hash_b_def Py_UNICODE_ISSPACE_def)

lemma validate_hash_b: "validate_tx_hash hash_b"
  by (simp add: validate_tx_hash_def startswith_def hash_b_def py_int16_def to_ascii_def
      Py_ISSPACE_def skip_sign_def skip_prefix16_def hex_digit_b)

lemma hash_nonempty: "hash_a \<noteq> []" "hash_b \<noteq> []"
  by (simp_all add: hash_a_def hash_b_def)

lemma clean_repeated: "clean_hashes [hash_a, hash_b, hash_a] = [hash_a, hash_b]"
  using hash_a_neq_hash_b
  by (auto simp: clean_hashes_def strip_hash_a strip_hash_b hash_nonempty)

lemma clean_malformed: "clean_hashes [hash_a, ''0xnotahash''] = [hash_a, ''0xnotahash'']"
proof -
  have "strip ''0xnotahash'' = ''0xnotahash''"
    by (simp add: strip_def Py_UNICODE_ISSPACE_def)
  moreover have "''0xnotahash'' \<noteq> hash_a"
    by (simp add: hash_a_def)
  ultimately show ?thesis
    by (simp add: clean_hashes_def strip_hash_a hash_nonempty)
qed

lemma not_placeholder: "\<not> contains ''primary'' ''your_api_key''"
  by (simp add: startswith_def)

lemma encode_commitment_failed:
  "encode_commitment echo_lib 1 hash_a (receipt_of 0 21000 None) =
     Inr \<lparr>ci_chainId = 1, ci_blockNumber = 100, ci_status = 0, ci_gasUsed = 21000,
          ci_commitment = spec_hex_of_bytes
            ([0, 0, 0, 0, 0, 0, 0, 1] @ replicate 32 170 @
             [0, 0, 0, 0, 0, 0, 0, 100, 0, 0, 0, 0, 0, 0, 0, 82, 8])\<rparr>"
  by (simp add: encode_commitment_eq receipt_of_def commitment_hash_a_failed
      del: spec_hex_of_bytes.simps)

text \<open>
  C6, as amended. When \<open>main\<close> of the auditor hands results to the output, every
  stripped and de-duplicated input hash was well formed, and the results are one record
  for each hash that is left after the cap, in that order. Its loop records an
  \<open>Exception\<close> of a provider in the record of the transaction and goes on: it is left
  early only by an exception that is not an \<open>Exception\<close>. The same holds of the loop of
  \<open>txbatch.py\<close>, which prints one row for each hash it is given.
\<close>

theorem one_verdict_per_hash:
  "(auditor_main lib provider args w = (Inr results, w') \<longrightarrow>
      (\<exists>hashes0. gather_hashes args = Inr hashes0
         \<and> list_all validate_tx_hash (clean_hashes hashes0)
         \<and> map txHash results = cap_hashes (a_max args) (clean_hashes hashes0)))
   \<and> (case audit_all lib hashes p s [] u of
         (Inl e, u') \<Rightarrow> \<not> is_Exception e
       | (Inr rs, u') \<Rightarrow> map txHash rs = hashes)
   \<and> (case audit_loop lib w3 w3b tx_hashes zero_counters v of
         (Inl e, v') \<Rightarrow> \<not> is_Exception e
       | (Inr c, v') \<Rightarrow>
           map row_hash (drop (length (rows (trace v))) (rows (trace v'))) = tx_hashes)"
proof (intro conjI impI)
  assume "auditor_main lib provider args w = (Inr results, w')"
  then show "\<exists>hashes0. gather_hashes args = Inr hashes0
         \<and> list_all validate_tx_hash (clean_hashes hashes0)
         \<and> map txHash results = cap_hashes (a_max args) (clean_hashes hashes0)"
    by (rule auditor_main_Inr)
next
  show "case audit_all lib hashes p s [] u of
         (Inl e, u') \<Rightarrow> \<not> is_Exception e
       | (Inr rs, u') \<Rightarrow> map txHash rs = hashes"
    by (auto split: prod.splits sum.splits dest: audit_all_Inl audit_all_Inr)
next
  show "case audit_loop lib w3 w3b tx_hashes zero_counters v of
         (Inl e, v') \<Rightarrow> \<not> is_Exception e
       | (Inr c, v') \<Rightarrow>
           map row_hash (drop (length (rows (trace v))) (rows (trace v'))) = tx_hashes"
    by (auto split: prod.splits sum.splits dest: audit_loop_Inl dest!: audit_loop_rows)
qed

theorem one_verdict_per_hash_witness:
  "auditor_main echo_lib one_provider repeated_args start =
     (Inr [\<lparr>txHash = hash_a,
            primary = Some \<lparr>ci_chainId = 1, ci_blockNumber = 100, ci_status = 0,
                            ci_gasUsed = 21000,
                            ci_commitment = spec_hex_of_bytes
                              ([0, 0, 0, 0, 0, 0, 0, 1] @ replicate 32 170 @
                               [0, 0, 0, 0, 0, 0, 0, 100, 0, 0, 0, 0, 0, 0, 0, 82, 8])\<rparr>,
            secondary = None, match = None, errorPrimary = None, errorSecondary = None\<rparr>,
           \<lparr>txHash = hash_b, primary = None, secondary = None, match = None,
            errorPrimary = Some TransactionNotFound, errorSecondary = None\<rparr>],
      \<lparr>net = 5,
       trace =
         [Report True
            [\<lparr>txHash = hash_a,
              primary = Some \<lparr>ci_chainId = 1, ci_blockNumber = 100, ci_status = 0,
                              ci_gasUsed = 21000,
                              ci_commitment = spec_hex_of_bytes
                                ([0, 0, 0, 0, 0, 0, 0, 1] @ replicate 32 170 @
                                 [0, 0, 0, 0, 0, 0, 0, 100, 0, 0, 0, 0, 0, 0, 0, 82, 8])\<rparr>,
              secondary = None, match = None, errorPrimary = None,
              errorSecondary = None\<rparr>,
             \<lparr>txHash = hash_b, primary = None, secondary = None, match = None,
              errorPrimary = Some TransactionNotFound, errorSecondary = None\<rparr>]]\<rparr>)
   \<and> gather_hashes repeated_args = Inr [hash_a, hash_b, hash_a]
   \<and> [hash_a, hash_b] =
       cap_hashes (a_max repeated_args) (clean_hashes [hash_a, hash_b, hash_a])"
proof -
  let ?ra = "\<lparr>txHash = hash_a,
            primary = Some \<lparr>ci_chainId = 1, ci_blockNumber = 100, ci_status = 0,
                            ci_gasUsed = 21000,
                            ci_commitment = spec_hex_of_bytes
                              ([0, 0, 0, 0, 0, 0, 0, 1] @ replicate 32 170 @
                               [0, 0, 0, 0, 0, 0, 0, 100, 0, 0, 0, 0, 0, 0, 0, 82, 8])\<rparr>,
            secondary = None, match = None, errorPrimary = None, errorSecondary = None\<rparr>"
  let ?rb = "\<lparr>txHash = hash_b, primary = None, secondary = None, match = None,
            errorPrimary = Some TransactionNotFound, errorSecondary = None\<rparr>"
  let ?w = "\<lparr>net = 5, trace = [Report True [?ra, ?rb]]\<rparr> :: nat world"
  have args: "a_max repeated_args = 0" "a_rpc1 repeated_args = ''primary''"
    "a_rpc2 repeated_args = None" "a_json repeated_args"
    and gather: "gather_hashes repeated_args = Inr [hash_a, hash_b, hash_a]"
    by (simp_all add: repeated_args_def gather_hashes_def)
  have table: "only_hash_a hash_a = Inr (Some (receipt_of 0 21000 None))"
    "only_hash_a hash_b = Inl TransactionNotFound"
    using hash_a_neq_hash_b by (simp_all add: only_hash_a_def)
  have run: "auditor_main echo_lib one_provider repeated_args start = (Inr [?ra, ?rb], ?w)"
    by (simp add: auditor_main_def args gather clean_repeated validate_hash_a validate_hash_b
        cap_hashes_def not_placeholder connect_table [where cid = 1] one_provider_def
        connect_optional_def check_chain_ids_def audit_tx_def audit_primary_def
        audit_secondary_def compare_commitments_def
        auditor_build_commitment_table [where receipts = only_hash_a and txh = hash_a,
          OF table(1)]
        auditor_build_commitment_table_error [where receipts = only_hash_a and txh = hash_b,
          OF table(2)]
        encode_commitment_failed report_def rpc_def table_provider_sel emit_def start_def
        eval_nat_numeral del: spec_hex_of_bytes.simps contains.simps)
  from one_verdict_per_hash [of echo_lib one_provider repeated_args start "[?ra, ?rb]" ?w]
  have "auditor_main echo_lib one_provider repeated_args start = (Inr [?ra, ?rb], ?w) \<longrightarrow>
      (\<exists>hashes0. gather_hashes repeated_args = Inr hashes0
         \<and> list_all validate_tx_hash (clean_hashes hashes0)
         \<and> map txHash [?ra, ?rb] = cap_hashes (a_max repeated_args) (clean_hashes hashes0))"
    by (rule conjunct1)
  from this run
  have "\<exists>hashes0. gather_hashes repeated_args = Inr hashes0
         \<and> list_all validate_tx_hash (clean_hashes hashes0)
         \<and> map txHash [?ra, ?rb] = cap_hashes (a_max repeated_args) (clean_hashes hashes0)"
    by (rule mp)
  then obtain hashes0 where h: "gather_hashes repeated_args = Inr hashes0
         \<and> list_all validate_tx_hash (clean_hashes hashes0)
         \<and> map txHash [?ra, ?rb] = cap_hashes (a_max repeated_args) (clean_hashes hashes0)"
    by (rule exE)
  with gather have "hashes0 = [hash_a, hash_b, hash_a]" by simp
  with h have "[hash_a, hash_b] =
          cap_hashes (a_max repeated_args) (clean_hashes [hash_a, hash_b, hash_a])"
    by (simp del: spec_hex_of_bytes.simps)
  with run gather show ?thesis by (simp del: spec_hex_of_bytes.simps)
qed

text \<open>
  The claim as first stated fails: one malformed hash in the input ends the run of the
  auditor with exit status 1, before a provider is contacted, and no verdict is
  produced for the two hashes that are left after de-duplication and capping.
\<close>

theorem one_verdict_per_hash_counterexample:
  "auditor_main echo_lib one_provider malformed_args start =
     (Inl (SystemExit 1), \<lparr>net = 0, trace = [InvalidHashes [''0xnotahash'']]\<rparr>)
   \<and> gather_hashes malformed_args = Inr [hash_a, ''0xnotahash'']
   \<and> cap_hashes (a_max malformed_args) (clean_hashes [hash_a, ''0xnotahash'']) =
       [hash_a, ''0xnotahash'']"
proof -
  have args: "a_max malformed_args = 0"
    "gather_hashes malformed_args = Inr [hash_a, ''0xnotahash'']"
    by (simp_all add: malformed_args_def gather_hashes_def)
  have bad: "\<not> validate_tx_hash ''0xnotahash''"
    by (simp add: validate_tx_hash_def)
  show ?thesis
    by (simp add: auditor_main_def args clean_malformed validate_hash_a bad cap_hashes_def
        emit_def start_def)
qed

section \<open>Hash validation: what is accepted\<close>

lemma hex_digit_char:
  assumes "hex_digit_value c \<noteq> None"
  shows "c \<noteq> CHR ''+''" "c \<noteq> CHR ''-''" "c \<noteq> CHR ''_''" "c \<noteq> CHR ''x''" "c \<noteq> CHR ''X''"
    and "\<not> Py_ISSPACE c" and "(of_char c :: nat) < 128"
  using assms
  by (auto simp: hex_digit_value_def Py_ISSPACE_def Let_def split: if_splits)

lemma scan_digits_all_hex:
  "list_all (\<lambda>c. hex_digit_value c \<noteq> None) ds \<Longrightarrow>
     \<exists>v. scan_digits ds False n acc = Some (v, n + length ds, [])"
proof (induction ds arbitrary: n acc)
  case Nil
  then show ?case by simp
next
  case (Cons c cs)
  from Cons.prems obtain d where d: "hex_digit_value c = Some d"
    and rest: "list_all (\<lambda>c. hex_digit_value c \<noteq> None) cs"
    by auto
  from d have "c \<noteq> CHR ''_''" using hex_digit_char(3) [of c] by simp
  with d Cons.IH [OF rest, of "Suc n" "16 * acc + int d"] show ?case
    by simp
qed

lemma py_int16_all_hex:
  assumes "list_all (\<lambda>c. hex_digit_value c \<noteq> None) ds" and "ds \<noteq> []"
  shows "\<exists>v. py_int16 ds = Inr v"
proof -
  from assms obtain c cs where ds: "ds = c # cs" by (cases ds) auto
  with assms(1) have c: "hex_digit_value c \<noteq> None"
    and cs: "list_all (\<lambda>c. hex_digit_value c \<noteq> None) cs" by auto
  have ascii: "to_ascii ds = ds"
    using assms(1) hex_digit_char(7) by (auto simp: to_ascii_def list_all_iff)
  have sp: "dropWhile Py_ISSPACE ds = ds"
    using ds hex_digit_char(6) [OF c] by simp
  have sg: "skip_sign ds = (1, ds)"
    using ds hex_digit_char(1,2) [OF c] by (simp add: skip_sign_def)
  have pf: "skip_prefix16 ds = ds"
  proof (cases cs)
    case Nil
    with ds show ?thesis by (simp add: skip_prefix16_def)
  next
    case (Cons b bs)
    with cs have "hex_digit_value b \<noteq> None" by simp
    from hex_digit_char(4,5) [OF this] ds Cons show ?thesis
      by (simp add: skip_prefix16_def)
  qed
  have us: "\<not> startswith ds ''_''"
    using ds hex_digit_char(3) [OF c] by (simp add: startswith_def)
  from scan_digits_all_hex [OF assms(1), of 0 0]
  obtain v where "scan_digits ds False 0 0 = Some (v, length ds, [])" by auto
  with assms(2) ascii sp sg pf us show ?thesis
    by (simp add: py_int16_def)
qed

lemma startswith_0x: "startswith s ''0x'' \<longleftrightarrow> take 2 s = ''0x''"
  by (simp add: startswith_def numeral_2_eq_2)

lemma shape_validates: "spec_hash_shape h \<Longrightarrow> validate_tx_hash h"
proof -
  assume s: "spec_hash_shape h"
  then have "drop 2 h \<noteq> []" by (auto simp: spec_hash_shape_def)
  with s obtain v where "py_int16 (drop 2 h) = Inr v"
    using py_int16_all_hex [of "drop 2 h"] by (auto simp: spec_hash_shape_def)
  with s show ?thesis
    by (simp add: validate_tx_hash_def spec_hash_shape_def startswith_0x)
qed

lemma validate_shape: "validate_tx_hash h \<Longrightarrow> length h = 66 \<and> take 2 h = ''0x''"
  by (auto simp: validate_tx_hash_def startswith_0x split: if_splits)

lemma parse_tx_hash_iff:
  assumes "\<forall>s. length s = 66 \<and> startswith s ''0x'' \<longrightarrow> is_hex lib s = spec_hash_shape s"
  shows "parse_tx_hash lib raw = Some h \<longleftrightarrow>
           spec_hash_shape h
           \<and> (h = strip raw \<or> (\<not> startswith (strip raw) ''0x'' \<and> h = ''0x'' @ strip raw))"
proof -
  have shape: "spec_hash_shape s \<Longrightarrow> length s = 66 \<and> startswith s ''0x''" for s
    by (simp add: spec_hash_shape_def startswith_0x)
  show ?thesis
  proof (cases "startswith (strip raw) ''0x''")
    case True
    then have "strip raw \<noteq> []" by (auto simp: startswith_0x)
    with True assms shape [of "strip raw"] show ?thesis
      by (auto simp: parse_tx_hash_def Let_def)
  next
    case False
    have pre: "startswith (''0x'' @ strip raw) ''0x''" by (simp add: startswith_0x)
    have "\<not> spec_hash_shape []" by (simp add: spec_hash_shape_def)
    moreover have "\<not> spec_hash_shape ''0x''" by (simp add: spec_hash_shape_def)
    moreover have "\<not> spec_hash_shape (strip raw)"
      using False shape by auto
    ultimately show ?thesis
      using False assms pre shape [of "''0x'' @ strip raw"]
      by (auto simp: parse_tx_hash_def Let_def)
  qed
qed

lemma auditor_rejects_batch:
  assumes "gather_hashes args = Inr hashes0" and "h \<in> set (clean_hashes hashes0)"
      and "\<not> validate_tx_hash h"
  shows "auditor_main lib provider args w =
           (Inl (SystemExit 1),
            emit (InvalidHashes (filter (\<lambda>h. \<not> validate_tx_hash h) (clean_hashes hashes0))) w)"
proof -
  from assms(2) have ne: "clean_hashes hashes0 \<noteq> []" by auto
  from assms(2,3) have "filter (\<lambda>h. \<not> validate_tx_hash h) (clean_hashes hashes0) \<noteq> []"
    by (auto simp: filter_empty_conv)
  with ne assms(1) show ?thesis
    by (simp add: auditor_main_def Let_def)
qed

lemma parse_loop_eq:
  "parse_loop lib raws tx_hashes n w =
     ((tx_hashes @ List.map_filter (parse_tx_hash lib) raws,
       n + length (filter (\<lambda>r. parse_tx_hash lib r = None) raws)),
      w\<lparr>trace := trace w @ map InvalidHash (filter (\<lambda>r. parse_tx_hash lib r = None) raws)\<rparr>)"
proof (induction raws arbitrary: tx_hashes n w)
  case Nil
  show ?case by (simp add: List.map_filter_simps)
next
  case (Cons raw rest)
  show ?case
    by (cases "parse_tx_hash lib raw") (simp_all add: Cons List.map_filter_simps emit_def)
qed

lemma echo_is_hex_shape:
  "\<forall>s. length s = 66 \<and> startswith s ''0x'' \<longrightarrow> is_hex echo_lib s = spec_hash_shape s"
  by (auto simp: echo_lib_def prefixed_hex_def spec_hash_shape_def startswith_0x)

lemma shape_hash_a: "spec_hash_shape hash_a"
  by (simp add: spec_hash_shape_def hash_a_def hex_digit_a)

lemma strip_bare_a: "strip bare_a = bare_a" "\<not> startswith bare_a ''0x''" "''0x'' @ bare_a = hash_a"
  by (simp_all add: strip_def bare_a_def hash_a_def Py_UNICODE_ISSPACE_def startswith_0x)

lemma not_a_hash:
  "\<not> validate_tx_hash ''0xnotahash''" "parse_tx_hash echo_lib ''0xnotahash'' = None"
  by (simp_all add: validate_tx_hash_def parse_tx_hash_def strip_def Py_UNICODE_ISSPACE_def
      startswith_0x)

text \<open>
  \<open>validate_tx_hash\<close> reads the 64 characters with \<open>int(s, 16)\<close>, which also takes a
  sign: it accepts a string that \<open>bytes.fromhex\<close> then refuses.
\<close>

lemma validate_tx_hash_accepts_sign:
  "validate_tx_hash signed_a \<and> \<not> spec_hash_shape signed_a
   \<and> fromhex (drop 2 signed_a) = Inl ValueError"
proof -
  have plus: "hex_digit_value CHR ''+'' = None" "\<not> Py_ISSPACE CHR ''+''"
    by (simp_all add: hex_digit_value_def Py_ISSPACE_def)
  have "validate_tx_hash signed_a"
    by (simp add: validate_tx_hash_def startswith_0x signed_a_def py_int16_def to_ascii_def
        Py_ISSPACE_def skip_sign_def skip_prefix16_def hex_digit_a startswith_def)
  moreover have "\<not> spec_hash_shape signed_a"
    by (simp add: spec_hash_shape_def signed_a_def plus)
  moreover have "fromhex (drop 2 signed_a) = Inl ValueError"
    by (simp add: signed_a_def plus)
  ultimately show ?thesis by simp
qed

text \<open>
  C7, as amended. Every string made of \<open>0x\<close> and 64 hexadecimal characters is accepted
  by \<open>validate_tx_hash\<close>, and what \<open>validate_tx_hash\<close> accepts has 66 characters and
  starts with \<open>0x\<close>. \<open>parse_tx_hash\<close> first strips white space from both ends and puts
  \<open>0x\<close> in front when it is missing; with a library whose \<open>is_hex\<close> tells, on strings
  of 66 characters that start with \<open>0x\<close>, whether the rest is hexadecimal, it accepts
  exactly when the string so normalised has that shape, and returns it. A hash the
  auditor rejects ends the run with exit status 1 and the world unchanged but for the
  message; \<open>txbatch.py\<close> reports each rejected string and keeps the others, without a
  call to a provider.
\<close>

theorem hash_validation:
  "(spec_hash_shape h \<longrightarrow> validate_tx_hash h)
   \<and> (validate_tx_hash g \<longrightarrow> length g = 66 \<and> take 2 g = ''0x'')
   \<and> ((\<forall>s. length s = 66 \<and> startswith s ''0x'' \<longrightarrow> is_hex lib s = spec_hash_shape s) \<longrightarrow>
        (parse_tx_hash lib raw = Some k \<longleftrightarrow>
           spec_hash_shape k
           \<and> (k = strip raw \<or> (\<not> startswith (strip raw) ''0x'' \<and> k = ''0x'' @ strip raw))))
   \<and> (gather_hashes args = Inr hashes0 \<and> bad \<in> set (clean_hashes hashes0)
        \<and> \<not> validate_tx_hash bad \<longrightarrow>
        auditor_main lib provider args w =
          (Inl (SystemExit 1),
           emit (InvalidHashes (filter (\<lambda>h. \<not> validate_tx_hash h) (clean_hashes hashes0))) w))
   \<and> parse_loop lib raws [] 0 v =
        ((List.map_filter (parse_tx_hash lib) raws,
          length (filter (\<lambda>r. parse_tx_hash lib r = None) raws)),
         v\<lparr>trace := trace v @ map InvalidHash (filter (\<lambda>r. parse_tx_hash lib r = None) raws)\<rparr>)"
  using shape_validates [of h] validate_shape [of g] parse_tx_hash_iff [of lib raw k]
    auditor_rejects_batch [of args hashes0 bad lib provider w]
    parse_loop_eq [of lib raws "[]" 0 v]
  by simp

theorem hash_validation_witness:
  "spec_hash_shape hash_a \<and> validate_tx_hash hash_a
   \<and> length hash_a = 66 \<and> take 2 hash_a = ''0x''
   \<and> parse_tx_hash echo_lib bare_a = Some hash_a
   \<and> gather_hashes malformed_args = Inr [hash_a, ''0xnotahash'']
   \<and> ''0xnotahash'' \<in> set (clean_hashes [hash_a, ''0xnotahash''])
   \<and> \<not> validate_tx_hash ''0xnotahash''
   \<and> auditor_main echo_lib one_provider malformed_args start =
       (Inl (SystemExit 1), \<lparr>net = 0, trace = [InvalidHashes [''0xnotahash'']]\<rparr>)
   \<and> parse_loop echo_lib [hash_a, ''0xnotahash''] [] 0 start =
       (([hash_a], 1), \<lparr>net = 0, trace = [InvalidHash ''0xnotahash'']\<rparr>)"
proof -
  have gather: "gather_hashes malformed_args = Inr [hash_a, ''0xnotahash'']"
    by (simp add: malformed_args_def gather_hashes_def)
  have mem: "''0xnotahash'' \<in> set (clean_hashes [hash_a, ''0xnotahash''])"
    by (simp add: clean_malformed)
  note inst = hash_validation [of hash_a hash_a echo_lib bare_a hash_a malformed_args
      "[hash_a, ''0xnotahash'']" "''0xnotahash''" one_provider start
      "[hash_a, ''0xnotahash'']" start]
  from inst shape_hash_a have v: "validate_tx_hash hash_a" by blast
  from inst v have l: "length hash_a = 66 \<and> take 2 hash_a = ''0x''" by blast
  from inst echo_is_hex_shape shape_hash_a strip_bare_a
  have p: "parse_tx_hash echo_lib bare_a = Some hash_a" by simp
  from inst gather mem not_a_hash(1)
  have "auditor_main echo_lib one_provider malformed_args start =
          (Inl (SystemExit 1),
           emit (InvalidHashes (filter (\<lambda>h. \<not> validate_tx_hash h)
                   (clean_hashes [hash_a, ''0xnotahash'']))) start)"
    by blast
  then have a: "auditor_main echo_lib one_provider malformed_args start =
       (Inl (SystemExit 1), \<lparr>net = 0, trace = [InvalidHashes [''0xnotahash'']]\<rparr>)"
    by (simp add: clean_malformed validate_hash_a not_a_hash emit_def start_def)
  from inst
  have "parse_loop echo_lib [hash_a, ''0xnotahash''] [] 0 start =
        ((List.map_filter (parse_tx_hash echo_lib) [hash_a, ''0xnotahash''],
          length (filter (\<lambda>r. parse_tx_hash echo_lib r = None) [hash_a, ''0xnotahash''])),
         start\<lparr>trace := trace start @
           map InvalidHash (filter (\<lambda>r. parse_tx_hash echo_lib r = None)
             [hash_a, ''0xnotahash''])\<rparr>)"
    by blast
  then have q: "parse_loop echo_lib [hash_a, ''0xnotahash''] [] 0 start =
       (([hash_a], 1), \<lparr>net = 0, trace = [InvalidHash ''0xnotahash'']\<rparr>)"
    by (simp add: parse_hash_a not_a_hash List.map_filter_simps start_def
        del: parse_loop.simps)
  from shape_hash_a v l p gather mem not_a_hash(1) a q show ?thesis by blast
qed

text \<open>
  The claim as first stated fails: \<open>parse_tx_hash\<close> accepts 64 hexadecimal characters
  that do not start with \<open>0x\<close>.
\<close>

theorem hash_validation_counterexample:
  "parse_tx_hash echo_lib bare_a = Some hash_a \<and> \<not> spec_hash_shape bare_a"
proof -
  have "parse_tx_hash echo_lib bare_a = Some hash_a"
    using parse_tx_hash_iff [OF echo_is_hex_shape, of bare_a hash_a] shape_hash_a strip_bare_a
    by simp
  moreover have "\<not> spec_hash_shape bare_a"
    by (simp add: spec_hash_shape_def bare_a_def)
  ultimately show ?thesis by simp
qed

end
